theory Spec2Isabelle
  imports Complex_Main
begin

section \<open>Shared data model\<close>

text \<open>
  The backend is an Express application over a Mongoose document store. Each route
  handler is embedded as a function from the store and the request to the new store and
  the response. Library functions that are not part of the repository (ObjectId casting,
  Mongoose's cast of a value to a Number path, JWT verification and signing, bcrypt,
  SHA-256) are parameters of the handlers. Strings are lists of 8-bit characters.
\<close>

type_synonym objectId = string

text \<open>\<open>!s\<close> for a string field: absent, \<open>null\<close> and the empty string are falsy.\<close>

fun falsy :: "string option \<Rightarrow> bool" where
  "falsy None = True"
| "falsy (Some s) = (s = [])"

text \<open>
  A response is \<open>res.status(code).json({message})\<close>, possibly with a payload (an
  answer that has a payload and no message carries the empty message); the \<open>catch\<close>
  branch of a handler answers 500 with the library's error message.
\<close>

datatype 'a response =
    Json nat string
  | JsonWith nat string 'a
  | ServerError

section \<open>Numbers and values of the language\<close>

text \<open>
  A Number is an IEEE-754 double: NaN, an infinity, or a finite value, given as the
  rational it denotes. Negative zero is identified with zero. Every arithmetic
  operation rounds its exact result to the nearest double, ties to the even significand.
\<close>

datatype double = NaN | PosInf | NegInf | Fin rat

definition roundHalfEven :: "rat \<Rightarrow> int" where
  "roundHalfEven y =
     (let f = \<lfloor>y\<rfloor>; d = y - of_int f
      in if d < 1 / 2 then f else if 1 / 2 < d then f + 1 else if even f then f else f + 1)"

definition pow2 :: "int \<Rightarrow> rat" where
  "pow2 e = (if 0 \<le> e then 2 ^ nat e else 1 / 2 ^ nat (- e))"

text \<open>The number of binary digits of a positive integer.\<close>

function bitLength :: "int \<Rightarrow> int" where
  "bitLength n = (if n \<le> 0 then 0 else 1 + bitLength (n div 2))"
  by pat_completeness auto
termination
  by (relation "measure nat") auto

declare bitLength.simps [simp del]

text \<open>For \<open>0 < x\<close>, the \<open>e\<close> with \<open>2 ^ e \<le> x < 2 ^ (e + 1)\<close>.\<close>

definition exponent :: "rat \<Rightarrow> int" where
  "exponent x =
     (if 1 \<le> x then bitLength \<lfloor>x\<rfloor> - 1
      else - bitLength (\<lceil>1 / x\<rceil> - 1))"

text \<open>
  Rounding to a double: 53 significant bits, the exponent of a subnormal held at
  \<open>- 1022\<close>, overflow to an infinity.
\<close>

definition round64 :: "rat \<Rightarrow> double" where
  "round64 x =
     (if x = 0 then Fin 0
      else
        (let e = max (exponent \<bar>x\<bar>) (- 1022);
             ulp = pow2 (e - 52);
             n = roundHalfEven (x / ulp)
         in if 1024 \<le> e \<or> (e = 1023 \<and> 2 ^ 53 \<le> \<bar>n\<bar>)
            then (if 0 < x then PosInf else NegInf)
            else Fin (of_int n * ulp)))"

fun dneg :: "double \<Rightarrow> double" where
  "dneg NaN = NaN"
| "dneg PosInf = NegInf"
| "dneg NegInf = PosInf"
| "dneg (Fin a) = Fin (- a)"

text \<open>\<open>a + b\<close>, \<open>a - b\<close>, \<open>a * b\<close> and \<open>a < b\<close> on Numbers.\<close>

fun dadd :: "double \<Rightarrow> double \<Rightarrow> double" where
  "dadd NaN b = NaN"
| "dadd a NaN = NaN"
| "dadd PosInf NegInf = NaN"
| "dadd NegInf PosInf = NaN"
| "dadd PosInf b = PosInf"
| "dadd NegInf b = NegInf"
| "dadd a PosInf = PosInf"
| "dadd a NegInf = NegInf"
| "dadd (Fin a) (Fin b) = round64 (a + b)"

definition dsub :: "double \<Rightarrow> double \<Rightarrow> double" where
  "dsub a b = dadd a (dneg b)"

fun dmul :: "double \<Rightarrow> double \<Rightarrow> double" where
  "dmul NaN b = NaN"
| "dmul a NaN = NaN"
| "dmul (Fin a) (Fin b) = round64 (a * b)"
| "dmul (Fin a) PosInf = (if a = 0 then NaN else if 0 < a then PosInf else NegInf)"
| "dmul (Fin a) NegInf = (if a = 0 then NaN else if 0 < a then NegInf else PosInf)"
| "dmul PosInf (Fin b) = (if b = 0 then NaN else if 0 < b then PosInf else NegInf)"
| "dmul NegInf (Fin b) = (if b = 0 then NaN else if 0 < b then NegInf else PosInf)"
| "dmul PosInf PosInf = PosInf"
| "dmul PosInf NegInf = NegInf"
| "dmul NegInf PosInf = NegInf"
| "dmul NegInf NegInf = PosInf"

fun dless :: "double \<Rightarrow> double \<Rightarrow> bool" where
  "dless NaN b = False"
| "dless a NaN = False"
| "dless (Fin a) (Fin b) = (a < b)"
| "dless NegInf NegInf = False"
| "dless NegInf b = True"
| "dless a NegInf = False"
| "dless PosInf b = False"
| "dless a PosInf = True"

text \<open>
  A value of a JSON body, or \<open>undefined\<close> for an absent field. \<open>JObj\<close> is any
  plain object.
\<close>

datatype jsval =
    JUndefined
  | JNull
  | JBool bool
  | JNum double
  | JStr string
  | JArr "jsval list"
  | JObj

text \<open>
  The conversion of a string to a Number: white space is trimmed; the empty string is
  0; a literal with prefix \<open>0x\<close>, \<open>0o\<close> or \<open>0b\<close> is an integer in that base; a
  signed \<open>Infinity\<close> is an infinity; a signed decimal literal, with optional fraction
  and exponent, is its value rounded; everything else is NaN.
\<close>

definition isWhiteSpace :: "char \<Rightarrow> bool" where
  "isWhiteSpace c =
     (c \<in> set [CHR 0x09, CHR 0x0A, CHR 0x0B, CHR 0x0C, CHR 0x0D, CHR 0x20, CHR 0xA0])"

definition trim :: "string \<Rightarrow> string" where
  "trim s = rev (dropWhile isWhiteSpace (rev (dropWhile isWhiteSpace s)))"

definition digitValue :: "char \<Rightarrow> int option" where
  "digitValue c =
     map_of [(CHR ''0'', 0), (CHR ''1'', 1), (CHR ''2'', 2), (CHR ''3'', 3), (CHR ''4'', 4),
             (CHR ''5'', 5), (CHR ''6'', 6), (CHR ''7'', 7), (CHR ''8'', 8), (CHR ''9'', 9),
             (CHR ''a'', 10), (CHR ''b'', 11), (CHR ''c'', 12), (CHR ''d'', 13),
             (CHR ''e'', 14), (CHR ''f'', 15), (CHR ''A'', 10), (CHR ''B'', 11),
             (CHR ''C'', 12), (CHR ''D'', 13), (CHR ''E'', 14), (CHR ''F'', 15)] c"

definition isDigitIn :: "int \<Rightarrow> char \<Rightarrow> bool" where
  "isDigitIn base c = (case digitValue c of None \<Rightarrow> False | Some v \<Rightarrow> v < base)"

definition digitsValue :: "int \<Rightarrow> string \<Rightarrow> int" where
  "digitsValue base ds =
     foldl (\<lambda>a c. a * base + (case digitValue c of None \<Rightarrow> 0 | Some v \<Rightarrow> v)) 0 ds"

definition literalIn :: "int \<Rightarrow> string \<Rightarrow> int option" where
  "literalIn base ds =
     (if ds \<noteq> [] \<and> list_all (isDigitIn base) ds then Some (digitsValue base ds) else None)"

definition nonDecimal :: "string \<Rightarrow> int option" where
  "nonDecimal t =
     (case t of
        z # x # ds \<Rightarrow>
          if z \<noteq> CHR ''0'' then None
          else if x = CHR ''x'' \<or> x = CHR ''X'' then literalIn 16 ds
          else if x = CHR ''o'' \<or> x = CHR ''O'' then literalIn 8 ds
          else if x = CHR ''b'' \<or> x = CHR ''B'' then literalIn 2 ds
          else None
      | _ \<Rightarrow> None)"

definition pow10 :: "int \<Rightarrow> rat" where
  "pow10 e = (if 0 \<le> e then 10 ^ nat e else 1 / 10 ^ nat (- e))"

text \<open>The exponent part of a decimal literal, which has to end the string.\<close>

definition exponentPart :: "string \<Rightarrow> int option" where
  "exponentPart r =
     (case r of
        [] \<Rightarrow> Some 0
      | c # u \<Rightarrow>
          if c \<noteq> CHR ''e'' \<and> c \<noteq> CHR ''E'' then None
          else
            (case u of
               CHR ''+'' # ds \<Rightarrow> literalIn 10 ds
             | CHR ''-'' # ds \<Rightarrow> map_option uminus (literalIn 10 ds)
             | _ \<Rightarrow> literalIn 10 u))"

definition strDecimal :: "string \<Rightarrow> rat option" where
  "strDecimal t =
     (let ip = takeWhile (isDigitIn 10) t;
          r1 = dropWhile (isDigitIn 10) t;
          fp = (case r1 of CHR ''.'' # u \<Rightarrow> takeWhile (isDigitIn 10) u | _ \<Rightarrow> []);
          r2 = (case r1 of CHR ''.'' # u \<Rightarrow> dropWhile (isDigitIn 10) u | _ \<Rightarrow> r1)
      in if ip = [] \<and> fp = [] then None
         else
           (case exponentPart r2 of
              None \<Rightarrow> None
            | Some ex \<Rightarrow>
                Some (of_int (digitsValue 10 (ip @ fp)) * pow10 (ex - int (length fp)))))"

definition unsignedDecimal :: "string \<Rightarrow> double" where
  "unsignedDecimal u =
     (if u = ''Infinity'' then PosInf
      else (case strDecimal u of None \<Rightarrow> NaN | Some r \<Rightarrow> round64 r))"

definition stringToNumber :: "string \<Rightarrow> double" where
  "stringToNumber s =
     (let t = trim s
      in if t = [] then Fin 0
         else
           (case nonDecimal t of
              Some n \<Rightarrow> round64 (of_int n)
            | None \<Rightarrow>
                (case t of
                   CHR ''+'' # u \<Rightarrow> unsignedDecimal u
                 | CHR ''-'' # u \<Rightarrow> dneg (unsignedDecimal u)
                 | _ \<Rightarrow> unsignedDecimal t)))"

text \<open>
  \<open>Number(v)\<close>, which is also the conversion the operators \<open><\<close>, \<open>*\<close> and
  \<open>-\<close> apply to an operand beside a Number. An array is converted through its
  string: the empty array through the empty string, an array of one element through
  the string of that element (empty for \<open>null\<close>), a longer array through a string with
  a comma.
\<close>

fun toNumber :: "jsval \<Rightarrow> double" where
  "toNumber JUndefined = NaN"
| "toNumber JNull = Fin 0"
| "toNumber (JBool b) = Fin (if b then 1 else 0)"
| "toNumber (JNum d) = d"
| "toNumber (JStr s) = stringToNumber s"
| "toNumber (JArr []) = Fin 0"
| "toNumber (JArr [JUndefined]) = Fin 0"
| "toNumber (JArr [JNull]) = Fin 0"
| "toNumber (JArr [JBool b]) = NaN"
| "toNumber (JArr [JObj]) = NaN"
| "toNumber (JArr [v]) = toNumber v"
| "toNumber (JArr (v # w # vs)) = NaN"
| "toNumber JObj = NaN"

text \<open>\<open>v == null\<close>.\<close>

fun isNullish :: "jsval \<Rightarrow> bool" where
  "isNullish JUndefined = True"
| "isNullish JNull = True"
| "isNullish v = False"

section \<open>Order service (routes/order.js)\<close>

record item =
  name :: string
  categoryType :: objectId
  price :: double
  quantity :: double

record shop =
  shopName :: string
  shop_isActive :: "bool option"

text \<open>
  The object the loop pushes on \<open>orderLines\<close>: its quantity is the value of the
  body, as it came.
\<close>

record pushedLine =
  pushed_product :: objectId
  pushed_productName :: string
  pushed_quantity :: jsval
  pushed_unitPrice :: double
  pushed_lineTotal :: double

text \<open>A line of a stored order (models/Order.js): all numeric fields are Numbers.\<close>

record orderLine =
  product :: objectId
  productName :: string
  ol_quantity :: double
  unitPrice :: double
  lineTotal :: double

record order =
  order_shop :: objectId
  salesman :: objectId
  orderLines :: "orderLine list"
  totalAmount :: double
  paymentType :: string
  paymentTypeId :: nat
  paymentAmount :: double
  amountPaid :: double

record store =
  shops :: "objectId \<rightharpoonup> shop"
  items :: "objectId \<rightharpoonup> item"
  orders :: "objectId \<rightharpoonup> order"

text \<open>One element of \<open>items\<close> in the body of \<open>POST /order\<close>.\<close>

record line =
  productId :: "string option"
  req_quantity :: jsval

record orderBody =
  shopId :: "string option"
  body_items :: "line list option"
  body_paymentType :: "string option"
  body_paymentAmount :: jsval

definition validPaymentTypes :: "string list" where
  "validPaymentTypes = [''half'', ''full'', ''cashOnDelivery'']"

definition paymentTypeToId :: "string \<Rightarrow> nat" where
  "paymentTypeToId t = (if t = ''half'' then 1 else if t = ''full'' then 2 else 3)"

text \<open>
  The guard of a line, \<open>!productId || quantity == null || quantity < 1\<close>: the
  product id and the quantity of a line that passes it. The comparison converts the
  quantity to a Number, and is false for NaN.
\<close>

definition lineGuard :: "line \<Rightarrow> (string \<times> jsval) option" where
  "lineGuard l =
     (case productId l of
        None \<Rightarrow> None
      | Some pid \<Rightarrow>
          if pid = [] \<or> isNullish (req_quantity l) \<or> dless (toNumber (req_quantity l)) (Fin 1)
          then None
          else Some (pid, req_quantity l))"

text \<open>
  The body of \<open>for (const line of items)\<close>, one line: the pushed object and the
  item collection after \<open>product.save()\<close>, or the response of the early return.
  \<open>cast\<close> is Mongoose's cast of the string to an ObjectId in \<open>Item.findById\<close>;
  where it fails, \<open>findById\<close> throws and the handler answers 500.
  \<open>castNumber\<close> is Mongoose's cast of a value to a Number path of a schema, \<open>None\<close>
  where the document does not validate; then \<open>save()\<close> throws, nothing is written and
  the handler answers 500.
\<close>

definition processLine ::
  "(string \<Rightarrow> objectId option) \<Rightarrow> (jsval \<Rightarrow> double option) \<Rightarrow> (objectId \<rightharpoonup> item) \<Rightarrow> line
     \<Rightarrow> order response + (pushedLine \<times> (objectId \<rightharpoonup> item))" where
  "processLine cast castNumber its l =
     (case lineGuard l of
        None \<Rightarrow> Inl (Json 400 ''Each item must have productId and quantity (min 1)'')
      | Some (pid, q) \<Rightarrow>
          (case cast pid of
             None \<Rightarrow> Inl ServerError
           | Some oid \<Rightarrow>
               (case its oid of
                  None \<Rightarrow> Inl (Json 400 (''Product not found: '' @ pid))
                | Some p \<Rightarrow>
                    if dless (quantity p) (toNumber q)
                    then Inl (Json 400 (''Insufficient stock for product '' @ name p))
                    else
                      (case castNumber (JNum (dsub (quantity p) (toNumber q))) of
                         None \<Rightarrow> Inl ServerError
                       | Some left \<Rightarrow>
                           Inr (\<lparr>pushed_product = oid, pushed_productName = name p,
                                  pushed_quantity = q, pushed_unitPrice = price p,
                                  pushed_lineTotal = dmul (toNumber q) (price p)\<rparr>,
                                its(oid \<mapsto> p\<lparr>quantity := left\<rparr>))))))"

text \<open>
  The loop, with its two accumulators \<open>orderLines\<close> and \<open>totalAmount\<close>. The item
  collection is returned in both outcomes: an early return leaves the saves of the
  earlier lines in place.
\<close>

fun processLines ::
  "(string \<Rightarrow> objectId option) \<Rightarrow> (jsval \<Rightarrow> double option) \<Rightarrow> (objectId \<rightharpoonup> item)
     \<Rightarrow> line list \<Rightarrow> pushedLine list \<Rightarrow> double
     \<Rightarrow> (objectId \<rightharpoonup> item) \<times> (order response + (pushedLine list \<times> double))" where
  "processLines cast castNumber its [] acc tot = (its, Inr (acc, tot))"
| "processLines cast castNumber its (l # ls) acc tot =
     (case processLine cast castNumber its l of
        Inl r \<Rightarrow> (its, Inl r)
      | Inr (pl, its') \<Rightarrow>
          processLines cast castNumber its' ls (acc @ [pl]) (dadd tot (pushed_lineTotal pl)))"

definition missingFields :: string where
  "missingFields = ''shopId, paymentType, paymentAmount, and at least one item (productId, quantity) are required''"

text \<open>
  What \<open>Order.create\<close> stores for a pushed line under the schema of models/Order.js:
  every Number path is cast, and the quantity has \<open>min: 1\<close>.
\<close>

definition castLine :: "(jsval \<Rightarrow> double option) \<Rightarrow> pushedLine \<Rightarrow> orderLine option" where
  "castLine castNumber pl =
     (case (castNumber (pushed_quantity pl), castNumber (JNum (pushed_unitPrice pl)),
            castNumber (JNum (pushed_lineTotal pl))) of
        (Some q, Some u, Some t) \<Rightarrow>
          if dless q (Fin 1) then None
          else Some \<lparr>product = pushed_product pl, productName = pushed_productName pl,
                      ol_quantity = q, unitPrice = u, lineTotal = t\<rparr>
      | _ \<Rightarrow> None)"

fun castLines :: "(jsval \<Rightarrow> double option) \<Rightarrow> pushedLine list \<Rightarrow> orderLine list option" where
  "castLines castNumber [] = Some []"
| "castLines castNumber (pl # pls) =
     (case (castLine castNumber pl, castLines castNumber pls) of
        (Some ol, Some ols) \<Rightarrow> Some (ol # ols)
      | _ \<Rightarrow> None)"

text \<open>
  The part of the handler after the shop checks: the loop, then \<open>Order.create\<close>,
  which throws where the document does not validate (\<open>paymentAmount\<close> has
  \<open>min: 0\<close>); the handler then answers 500, after the saves of the loop.
\<close>

definition createOrder ::
  "(string \<Rightarrow> objectId option) \<Rightarrow> (jsval \<Rightarrow> double option) \<Rightarrow> objectId \<Rightarrow> objectId \<Rightarrow> store
     \<Rightarrow> objectId \<Rightarrow> line list \<Rightarrow> string \<Rightarrow> double \<Rightarrow> store \<times> order response" where
  "createOrder cast castNumber newId uid d sid ls pt amount =
     (case processLines cast castNumber (items d) ls [] (Fin 0) of
        (its, Inl r) \<Rightarrow> (d\<lparr>items := its\<rparr>, r)
      | (its, Inr (pls, tot)) \<Rightarrow>
          (case (castLines castNumber pls, castNumber (JNum tot), castNumber (JNum amount)) of
             (Some ols, Some stored, Some paid) \<Rightarrow>
               if dless paid (Fin 0) then (d\<lparr>items := its\<rparr>, ServerError)
               else
                 (let ord = \<lparr>order_shop = sid, salesman = uid, orderLines = ols,
                             totalAmount = stored, paymentType = pt,
                             paymentTypeId = paymentTypeToId pt,
                             paymentAmount = paid, amountPaid = Fin 0\<rparr>
                  in (d\<lparr>items := its, orders := (orders d)(newId \<mapsto> ord)\<rparr>,
                      JsonWith 201 ''Order created successfully'' ord))
           | _ \<Rightarrow> (d\<lparr>items := its\<rparr>, ServerError)))"

text \<open>
  The request validation and the shop checks: the shop's ObjectId, the lines, the
  payment type and the amount \<open>Number(paymentAmount)\<close> of a request that passes them,
  or the response of the early return.
\<close>

definition orderChecks ::
  "(string \<Rightarrow> objectId option) \<Rightarrow> store \<Rightarrow> orderBody
     \<Rightarrow> order response + (objectId \<times> line list \<times> string \<times> double)" where
  "orderChecks cast d b =
     (case (shopId b, body_items b) of
        (Some sid, Some (l # ls)) \<Rightarrow>
          if sid = [] then Inl (Json 400 missingFields)
          else
            (case body_paymentType b of
               None \<Rightarrow> Inl (Json 400 ''paymentType must be one of: half, full, cashOnDelivery'')
             | Some pt \<Rightarrow>
                 if pt \<notin> set validPaymentTypes
                 then Inl (Json 400 ''paymentType must be one of: half, full, cashOnDelivery'')
                 else
                   (let amount = toNumber (body_paymentAmount b)
                    in if amount = NaN \<or> dless amount (Fin 0)
                       then Inl (Json 400 ''paymentAmount must be a number >= 0'')
                       else
                         (case cast sid of
                            None \<Rightarrow> Inl ServerError
                          | Some soid \<Rightarrow>
                              (case shops d soid of
                                 None \<Rightarrow> Inl (Json 400 ''Shop not found'')
                               | Some s \<Rightarrow>
                                   if shop_isActive s = Some False
                                   then Inl (Json 400 ''Shop is not active'')
                                   else Inr (soid, l # ls, pt, amount)))))
      | _ \<Rightarrow> Inl (Json 400 missingFields))"

text \<open>
  \<open>POST /order\<close>. \<open>newId\<close> is the \<open>_id\<close> the store gives the created order,
  \<open>uid\<close> is \<open>req.user.id\<close>. The populated copy of the order in the response is
  display only and is not modelled.
\<close>

definition placeOrder ::
  "(string \<Rightarrow> objectId option) \<Rightarrow> (jsval \<Rightarrow> double option) \<Rightarrow> objectId \<Rightarrow> objectId \<Rightarrow> store
     \<Rightarrow> orderBody \<Rightarrow> store \<times> order response" where
  "placeOrder cast castNumber newId uid d b =
     (case orderChecks cast d b of
        Inl r \<Rightarrow> (d, r)
      | Inr (sid, ls, pt, amount) \<Rightarrow> createOrder cast castNumber newId uid d sid ls pt amount)"

text \<open>
  \<open>PATCH /admin/order/:orderId/payment\<close>. \<open>isValid\<close> is
  \<open>mongoose.Types.ObjectId.isValid\<close>, \<open>cast\<close> the cast in \<open>Order.findById\<close>.
  The amount is \<open>amountPaid != null ? Number(amountPaid) : NaN\<close>; where it is stored
  it is a Number that is neither NaN nor negative, which the schema accepts.
\<close>

definition invalidOrderId :: string where
  "invalidOrderId = ''Invalid order ID. Use an Order _id from POST /api/order or GET /api/admin/orders.''"

definition orderNotFound :: string where
  "orderNotFound = ''Order not found. Use an Order _id from POST /api/order or GET /api/admin/orders.''"

definition recordPayment ::
  "(string \<Rightarrow> bool) \<Rightarrow> (string \<Rightarrow> objectId option) \<Rightarrow> store \<Rightarrow> string \<Rightarrow> jsval
     \<Rightarrow> store \<times> order response" where
  "recordPayment isValid cast d orderId amountPaid' =
     (if \<not> isValid orderId then (d, Json 400 invalidOrderId)
      else
        (let amount = (if isNullish amountPaid' then NaN else toNumber amountPaid')
         in if amount = NaN \<or> dless amount (Fin 0)
            then (d, Json 400 ''amountPaid must be a number >= 0'')
            else
              (case cast orderId of
                 None \<Rightarrow> (d, ServerError)
               | Some oid \<Rightarrow>
                   (case orders d oid of
                      None \<Rightarrow> (d, Json 404 orderNotFound)
                    | Some ord \<Rightarrow>
                        if dless (totalAmount ord) amount
                        then (d, Json 400 ''amountPaid cannot exceed order totalAmount'')
                        else (d\<lparr>orders := (orders d)(oid \<mapsto> ord\<lparr>amountPaid := amount\<rparr>)\<rparr>,
                              JsonWith 200 ''Payment amount updated successfully''
                                (ord\<lparr>amountPaid := amount\<rparr>))))))"

section \<open>Credential store (models/user.js)\<close>

record user =
  user_id :: objectId
  user_name :: string
  phone :: "string option"
  address :: "string option"
  idCardNumber :: "string option"
  email :: "string option"
  password :: string
  role :: string
  isActive :: "bool option"
  resetCode :: "string option"
  resetCodeExpiry :: "int option"
  refreshToken :: "string option"

text \<open>
  The collection is the list of its documents. \<open>User.findById\<close> and
  \<open>User.findOne\<close> return the first match; \<open>save()\<close> writes a document back under
  its \<open>_id\<close>. A filter field that is \<open>undefined\<close> matches the documents without
  the field.
\<close>

definition findById :: "user list \<Rightarrow> objectId \<Rightarrow> user option" where
  "findById us i = find (\<lambda>u. user_id u = i) us"

definition findOneByEmail :: "user list \<Rightarrow> string option \<Rightarrow> user option" where
  "findOneByEmail us e = find (\<lambda>u. email u = e) us"

definition findOneByRefreshToken :: "user list \<Rightarrow> string \<Rightarrow> user option" where
  "findOneByRefreshToken us t = find (\<lambda>u. refreshToken u = Some t) us"

definition save :: "user list \<Rightarrow> user \<Rightarrow> user list" where
  "save us u = map (\<lambda>v. if user_id v = user_id u then u else v) us"

section \<open>Authorization gate (middleware)\<close>

text \<open>The decoded payload of a token: access tokens carry \<open>{id, role}\<close>.\<close>

record payload =
  pl_id :: string
  pl_role :: "string option"

text \<open>A middleware either answers the request or calls \<open>next()\<close>.\<close>

datatype 'a gate = Reject nat string | Next 'a

text \<open>\<open>s.split(" ")\<close>.\<close>

fun split :: "string \<Rightarrow> string list" where
  "split [] = [[]]"
| "split (c # cs) =
     (if c = CHR '' '' then [] # split cs
      else (case split cs of p # ps \<Rightarrow> (c # p) # ps | [] \<Rightarrow> [[c]]))"

definition blockedMessage :: string where
  "blockedMessage = ''Your account is blocked. Please contact the administrator.''"

text \<open>
  \<open>verifyAccessToken\<close>, the middleware that requires \<open>../models/user\<close>: it belongs
  with the \<open>isActive\<close> field of the user and the routes that block and delete a
  salesman. \<open>verify\<close> is \<open>jwt.verify\<close> under the access-token secret at the time of
  the request, \<open>None\<close> where it throws; \<open>cast\<close> is the cast of \<open>decoded.id\<close> in
  \<open>User.findById\<close>, whose failure is caught by the same \<open>catch\<close>. The repository
  also holds an earlier copy of the middleware, from before the user had \<open>isActive\<close>,
  which attaches the decoded payload without loading the user.
\<close>

definition verifyAccessToken ::
  "(string \<Rightarrow> payload option) \<Rightarrow> (string \<Rightarrow> objectId option) \<Rightarrow> user list
     \<Rightarrow> string option \<Rightarrow> payload gate" where
  "verifyAccessToken verify cast us authHeader =
     (case authHeader of
        None \<Rightarrow> Reject 401 ''Unauthorized''
      | Some h \<Rightarrow>
          if h = [] \<or> take 7 h \<noteq> ''Bearer '' then Reject 401 ''Unauthorized''
          else
            (case split h of
               _ # token # _ \<Rightarrow>
                 (case verify token of
                    None \<Rightarrow> Reject 403 ''Invalid or expired token''
                  | Some decoded \<Rightarrow>
                      (case cast (pl_id decoded) of
                         None \<Rightarrow> Reject 403 ''Invalid or expired token''
                       | Some oid \<Rightarrow>
                           (case findById us oid of
                              None \<Rightarrow> Reject 401 ''User not found''
                            | Some u \<Rightarrow>
                                if isActive u = Some False then Reject 403 blockedMessage
                                else Next \<lparr>pl_id = user_id u, pl_role = Some (role u)\<rparr>)))
             | _ \<Rightarrow> Reject 403 ''Invalid or expired token''))"

text \<open>\<open>checkRole(allowedRoles)\<close> of middleware/roleMiddleware.js, on \<open>req.user\<close>.\<close>

definition checkRole :: "string list \<Rightarrow> payload option \<Rightarrow> payload gate" where
  "checkRole roles reqUser =
     (case reqUser of
        None \<Rightarrow> Reject 403 ''Access denied''
      | Some u \<Rightarrow>
          (case pl_role u of
             None \<Rightarrow> Reject 403 ''Access denied''
           | Some r \<Rightarrow>
               if r = [] then Reject 403 ''Access denied''
               else if r \<notin> set roles then Reject 403 ''Access denied''
               else Next u))"

text \<open>
  A route declared as \<open>router.x(path, verifyAccessToken, checkRole(roles), body)\<close>:
  the body runs with \<open>req.user\<close> exactly when both middlewares call \<open>next()\<close>.
\<close>

definition route ::
  "(string \<Rightarrow> payload option) \<Rightarrow> (string \<Rightarrow> objectId option) \<Rightarrow> user list
     \<Rightarrow> string list \<Rightarrow> string option \<Rightarrow> payload gate" where
  "route verify cast us roles authHeader =
     (case verifyAccessToken verify cast us authHeader of
        Reject c m \<Rightarrow> Reject c m
      | Next u \<Rightarrow> checkRole roles (Some u))"

section \<open>Auth service (routes/auth.js)\<close>

text \<open>
  \<open>passwordRegex = /^(?=.*[A-Za-z])(?=.*\d)(?=.*[^A-Za-z0-9]).{8,}$/\<close>. The dot
  matches every character but a line terminator, so each look-ahead searches the first
  line; a negated class matches a line terminator too.
\<close>

definition isLetter :: "char \<Rightarrow> bool" where
  "isLetter c = (c \<in> set ''abcdefghijklmnopqrstuvwxyzABCDEFGHIJKLMNOPQRSTUVWXYZ'')"

definition isDigit :: "char \<Rightarrow> bool" where
  "isDigit c = (c \<in> set ''0123456789'')"

definition isLineTerminator :: "char \<Rightarrow> bool" where
  "isLineTerminator c = (c = CHR 0x0A \<or> c = CHR 0x0D)"

definition passwordRegex_test :: "string \<Rightarrow> bool" where
  "passwordRegex_test s =
     (let firstLine = takeWhile (\<lambda>c. \<not> isLineTerminator c) s
      in (\<exists>c \<in> set firstLine. isLetter c)
       \<and> (\<exists>c \<in> set firstLine. isDigit c)
       \<and> ((\<exists>c \<in> set firstLine. \<not> isLetter c \<and> \<not> isDigit c) \<or> firstLine \<noteq> s)
       \<and> firstLine = s \<and> 8 \<le> length s)"

definition weakPassword :: string where
  "weakPassword = ''Password must be at least 8 characters and include at least one letter, one number, and one special character''"

definition invalidBody :: string where
  "invalidBody = ''Invalid JSON body. Use Content-Type: application/json''"

record signupBody =
  sb_name :: "string option"
  sb_phone :: "string option"
  sb_address :: "string option"
  sb_email :: "string option"
  sb_password :: "string option"
  sb_role :: "string option"

text \<open>
  \<open>POST /signup\<close>. \<open>hash\<close> is \<open>bcrypt.hash(_, 10)\<close> with the salt of this call,
  \<open>newId\<close> the \<open>_id\<close> of the created document. The schema default gives
  \<open>isActive = true\<close>. The field \<open>role\<close> of the body is never read.
\<close>

definition signup ::
  "(string \<Rightarrow> string) \<Rightarrow> objectId \<Rightarrow> user list \<Rightarrow> signupBody option
     \<Rightarrow> user list \<times> user response" where
  "signup hash newId us body =
     (case body of
        None \<Rightarrow> (us, Json 400 invalidBody)
      | Some b \<Rightarrow>
          if falsy (sb_name b) \<or> falsy (sb_phone b) \<or> falsy (sb_address b) \<or> falsy (sb_password b)
          then (us, Json 400 ''All fields except email are required'')
          else
            (case (sb_name b, sb_password b) of
               (Some n, Some pw) \<Rightarrow>
                 if \<not> passwordRegex_test pw then (us, Json 400 weakPassword)
                 else
                   (case findOneByEmail us (sb_email b) of
                      Some existingUser \<Rightarrow> (us, Json 400 ''User already exists'')
                    | None \<Rightarrow>
                        (let u = \<lparr>user_id = newId, user_name = n, phone = sb_phone b,
                                  address = sb_address b, idCardNumber = None,
                                  email = sb_email b, password = hash pw, role = ''admin'',
                                  isActive = Some True, resetCode = None,
                                  resetCodeExpiry = None, refreshToken = None\<rparr>
                         in (us @ [u], JsonWith 201 ''Admin user created successfully'' u)))
             | _ \<Rightarrow> (us, Json 400 ''All fields except email are required'')))"

record loginBody =
  lb_email :: "string option"
  lb_password :: "string option"

text \<open>
  \<open>POST /login\<close>. \<open>compare\<close> is \<open>bcrypt.compare\<close>; \<open>signAccess\<close> and
  \<open>signRefresh\<close> are \<open>jwt.sign\<close> of \<open>{id, role}\<close> and of \<open>{id}\<close> under the
  two secrets. The payload of the answer is the pair of tokens.
\<close>

definition login ::
  "(string \<Rightarrow> string \<Rightarrow> bool) \<Rightarrow> (objectId \<Rightarrow> string \<Rightarrow> string) \<Rightarrow> (objectId \<Rightarrow> string)
     \<Rightarrow> user list \<Rightarrow> loginBody option \<Rightarrow> user list \<times> (string \<times> string) response" where
  "login compare signAccess signRefresh us body =
     (case body of
        None \<Rightarrow> (us, Json 400 invalidBody)
      | Some b \<Rightarrow>
          (case (lb_email b, lb_password b) of
             (Some e, Some pw) \<Rightarrow>
               if e = [] \<or> pw = [] then (us, Json 400 ''Email and password required'')
               else
                 (case findOneByEmail us (Some e) of
                    None \<Rightarrow> (us, Json 400 ''Invalid credentials'')
                  | Some u \<Rightarrow>
                      if isActive u = Some False then (us, Json 403 blockedMessage)
                      else if \<not> compare pw (password u) then (us, Json 400 ''Invalid credentials'')
                      else
                        (let accessToken = signAccess (user_id u) (role u);
                             refreshToken' = signRefresh (user_id u)
                         in (save us (u\<lparr>refreshToken := Some refreshToken'\<rparr>),
                             JsonWith 200 [] (accessToken, refreshToken'))))
           | _ \<Rightarrow> (us, Json 400 ''Email and password required'')))"

text \<open>\<open>n.toString()\<close> for a natural number: its decimal digits.\<close>

definition digitChar :: "nat \<Rightarrow> char" where
  "digitChar d = ''0123456789'' ! d"

function toString :: "nat \<Rightarrow> string" where
  "toString n = (if n < 10 then [digitChar n] else toString (n div 10) @ [digitChar (n mod 10)])"
  by pat_completeness auto
termination
  by (relation "measure id") auto

declare toString.simps [simp del]

text \<open>
  \<open>Math.floor(100000 + Math.random() * 900000).toString()\<close>, \<open>r\<close> being the value
  of \<open>Math.random()\<close>.
\<close>

definition newResetCode :: "rat \<Rightarrow> string" where
  "newResetCode r = toString (nat \<lfloor>100000 + r * 900000\<rfloor>)"

text \<open>
  \<open>POST /forgot-password\<close>. \<open>sha256\<close> is the hex digest of
  \<open>crypto.createHash("sha256")\<close>, \<open>now\<close> is \<open>Date.now()\<close> in milliseconds,
  \<open>sent\<close> tells whether \<open>sendEmail\<close> returned; where it throws, the handler
  answers 500 after the save.
\<close>

definition forgotPassword ::
  "(string \<Rightarrow> string) \<Rightarrow> int \<Rightarrow> rat \<Rightarrow> bool \<Rightarrow> user list \<Rightarrow> string option
     \<Rightarrow> user list \<times> unit response" where
  "forgotPassword sha256 now r sent us email' =
     (if falsy email' then (us, Json 400 ''Email is required'')
      else
        (case findOneByEmail us email' of
           None \<Rightarrow> (us, Json 404 ''User not found'')
         | Some u \<Rightarrow>
             (let resetCode' = newResetCode r;
                  hashedCode = sha256 resetCode';
                  us' = save us (u\<lparr>resetCode := Some hashedCode,
                                   resetCodeExpiry := Some (now + 10 * 60 * 1000)\<rparr>)
              in if sent then (us', Json 200 ''Verification code sent to email'')
                 else (us', ServerError))))"

text \<open>\<open>POST /verify-code\<close>; \<open>now\<close> is \<open>new Date()\<close>. The handler writes nothing.\<close>

definition verifyCode ::
  "(string \<Rightarrow> string) \<Rightarrow> int \<Rightarrow> user list \<Rightarrow> string option \<Rightarrow> string option
     \<Rightarrow> unit response" where
  "verifyCode sha256 now us email' code =
     (case (email', code) of
        (Some e, Some c) \<Rightarrow>
          if e = [] \<or> c = [] then Json 400 ''Email and code are required''
          else
            (let hashedCode = sha256 c
             in (case findOneByEmail us (Some e) of
                   None \<Rightarrow> Json 400 ''Invalid or expired code''
                 | Some u \<Rightarrow>
                     (case resetCodeExpiry u of
                        None \<Rightarrow> Json 400 ''Invalid or expired code''
                      | Some expiry \<Rightarrow>
                          if resetCode u \<noteq> Some hashedCode \<or> expiry < now
                          then Json 400 ''Invalid or expired code''
                          else Json 200 ''Code verified'')))
      | _ \<Rightarrow> Json 400 ''Email and code are required'')"

text \<open>The answer of \<open>POST /change-password\<close> to a new password outside the policy.\<close>

definition weakNewPassword :: string where
  "weakNewPassword = ''New password must be at least 8 characters and include at least one letter, one number, and one special character''"

record changePasswordBody =
  oldPassword :: "string option"
  newPassword :: "string option"

text \<open>
  \<open>POST /change-password\<close>, the handler behind \<open>verifyAccessToken\<close>; \<open>uid\<close> is
  \<open>req.user.id\<close>, \<open>cast\<close> its cast in \<open>User.findById\<close>. Destructuring an
  absent body throws inside the \<open>try\<close>.
\<close>

definition changePassword ::
  "(string \<Rightarrow> string \<Rightarrow> bool) \<Rightarrow> (string \<Rightarrow> string) \<Rightarrow> (string \<Rightarrow> objectId option)
     \<Rightarrow> user list \<Rightarrow> string \<Rightarrow> changePasswordBody option \<Rightarrow> user list \<times> unit response" where
  "changePassword compare hash cast us uid body =
     (case body of
        None \<Rightarrow> (us, ServerError)
      | Some b \<Rightarrow>
          (case (oldPassword b, newPassword b) of
             (Some old, Some new) \<Rightarrow>
               if old = [] \<or> new = []
               then (us, Json 400 ''Old password and new password are required'')
               else if \<not> passwordRegex_test new
               then (us, Json 400 weakNewPassword)
               else
                 (case cast uid of
                    None \<Rightarrow> (us, ServerError)
                  | Some oid \<Rightarrow>
                      (case findById us oid of
                         None \<Rightarrow> (us, Json 401 ''User not found'')
                       | Some u \<Rightarrow>
                           if \<not> compare old (password u)
                           then (us, Json 400 ''Old password is incorrect'')
                           else (save us (u\<lparr>password := hash new, refreshToken := None\<rparr>),
                                 Json 200 ''Password changed successfully'')))
           | _ \<Rightarrow> (us, Json 400 ''Old password and new password are required'')))"

text \<open>
  \<open>POST /refresh-token\<close>. \<open>verify\<close> tells whether \<open>jwt.verify\<close> under the
  refresh-token secret accepts the token; \<open>generateAccessToken\<close> is \<open>jwt.sign\<close>
  of \<open>{id, role}\<close>, passed as \<open>signAccess\<close>. The payload of the answer is the
  new access token.
\<close>

definition generateAccessToken :: "(objectId \<Rightarrow> string \<Rightarrow> string) \<Rightarrow> user \<Rightarrow> string" where
  "generateAccessToken signAccess u = signAccess (user_id u) (role u)"

definition refresh ::
  "(string \<Rightarrow> bool) \<Rightarrow> (objectId \<Rightarrow> string \<Rightarrow> string) \<Rightarrow> user list \<Rightarrow> string option option
     \<Rightarrow> user list \<times> string response" where
  "refresh verify signAccess us body =
     (case body of
        None \<Rightarrow> (us, Json 400 invalidBody)
      | Some rt \<Rightarrow>
          (case rt of
             None \<Rightarrow> (us, Json 401 ''Refresh token required'')
           | Some t \<Rightarrow>
               if t = [] then (us, Json 401 ''Refresh token required'')
               else
                 (case findOneByRefreshToken us t of
                    None \<Rightarrow> (us, Json 403 ''Invalid refresh token'')
                  | Some u \<Rightarrow>
                      if \<not> verify t then (us, Json 403 ''Invalid or expired refresh token'')
                      else (us, JsonWith 200 [] (generateAccessToken signAccess u)))))"

section \<open>Stock and order bookkeeping\<close>

text \<open>
  A Number that is not negative: the sign of a stock.
\<close>

fun nonNeg :: "double \<Rightarrow> bool" where
  "nonNeg NaN = False"
| "nonNeg PosInf = True"
| "nonNeg NegInf = False"
| "nonNeg (Fin a) = (0 \<le> a)"

text \<open>
  What the properties below take from Mongoose's cast of a value to a Number path:
  where it yields a Number, that Number is \<open>Number(v)\<close> and is not NaN. Mongoose
  converts strings and booleans with \<open>Number\<close>, keeps a number as it is, and refuses
  NaN, arrays and the values a \<open>required\<close> path does not accept.
\<close>

definition mongooseCast :: "(jsval \<Rightarrow> double option) \<Rightarrow> bool" where
  "mongooseCast castNumber = (\<forall>v d. castNumber v = Some d \<longrightarrow> d = toNumber v \<and> d \<noteq> NaN)"

text \<open>
  The quantities, as Numbers, that the lines of a request ask of one product, in the
  order of the lines; and the item collection after each of them has been subtracted
  from the stock of its product, one subtraction of Numbers after the other.
\<close>

definition requestedOf ::
  "(string \<Rightarrow> objectId option) \<Rightarrow> objectId \<Rightarrow> line list \<Rightarrow> double list" where
  "requestedOf cast oid ls =
     concat (map (\<lambda>l. case lineGuard l of
                          Some (pid, q) \<Rightarrow> if cast pid = Some oid then [toNumber q] else []
                        | None \<Rightarrow> []) ls)"

definition stockAfter ::
  "(string \<Rightarrow> objectId option) \<Rightarrow> (objectId \<rightharpoonup> item) \<Rightarrow> line list \<Rightarrow> (objectId \<rightharpoonup> item)" where
  "stockAfter cast its ls =
     (\<lambda>oid. map_option (\<lambda>p. p\<lparr>quantity := foldl dsub (quantity p) (requestedOf cast oid ls)\<rparr>)
              (its oid))"

text \<open>
  No product has a negative stock.
\<close>

definition nonNegative :: "(objectId \<rightharpoonup> item) \<Rightarrow> bool" where
  "nonNegative its = (\<forall>oid p. its oid = Some p \<longrightarrow> nonNeg (quantity p))"

text \<open>
  The stored line of a pushed line whose Number paths cast.
\<close>

definition storedLine :: "pushedLine \<Rightarrow> orderLine" where
  "storedLine pl = \<lparr>product = pushed_product pl, productName = pushed_productName pl,
                    ol_quantity = toNumber (pushed_quantity pl),
                    unitPrice = pushed_unitPrice pl, lineTotal = pushed_lineTotal pl\<rparr>"

section \<open>The scenario of the specification\<close>

text \<open>
  An ObjectId cast that refuses one string, and a Number cast that does what Mongoose
  does on the values of a JSON body: a number is kept unless it is NaN, a boolean and a
  non-empty string are converted with \<open>Number\<close> and refused where that is NaN, and
  \<open>null\<close>, the empty string, arrays and objects do not give a required Number.
\<close>

definition cast0 :: "string \<Rightarrow> objectId option" where
  "cast0 s = (if s = ''bad'' then None else Some s)"

definition castNumber0 :: "jsval \<Rightarrow> double option" where
  "castNumber0 v =
     (case v of
        JNum d \<Rightarrow> if d = NaN then None else Some d
      | JBool b \<Rightarrow> Some (toNumber v)
      | JStr s \<Rightarrow> if s = [] \<or> toNumber v = NaN then None else Some (toNumber v)
      | _ \<Rightarrow> None)"

text \<open>
  A store with an active shop and one product, of a given price and stock; a request
  of that shop for some lines; a line that asks for a quantity of a product.
\<close>

definition stock :: "double \<Rightarrow> double \<Rightarrow> store" where
  "stock pr qty =
     \<lparr>shops = [''s1'' \<mapsto> \<lparr>shopName = ''S1'', shop_isActive = Some True\<rparr>],
      items = [''p1'' \<mapsto> \<lparr>name = ''P1'', categoryType = ''c1'', price = pr, quantity = qty\<rparr>],
      orders = Map.empty\<rparr>"

definition d0 :: store where
  "d0 = stock (Fin 100) (Fin 10)"

definition request :: "line list \<Rightarrow> orderBody" where
  "request ls = \<lparr>shopId = Some ''s1'', body_items = Some ls,
                 body_paymentType = Some ''half'', body_paymentAmount = JNum (Fin 150)\<rparr>"

definition ask :: "string \<Rightarrow> rat \<Rightarrow> line" where
  "ask pid q = \<lparr>productId = Some pid, req_quantity = JNum (Fin q)\<rparr>"

text \<open>
  The order that two lines for the same product, of 3 and of 4, create; and the
  double nearest to one tenth.
\<close>

definition ord1 :: order where
  "ord1 = \<lparr>order_shop = ''s1'', salesman = ''u1'',
           orderLines = [\<lparr>product = ''p1'', productName = ''P1'', ol_quantity = Fin 3,
                            unitPrice = Fin 100, lineTotal = Fin 300\<rparr>,
                         \<lparr>product = ''p1'', productName = ''P1'', ol_quantity = Fin 4,
                            unitPrice = Fin 100, lineTotal = Fin 400\<rparr>],
           totalAmount = Fin 700, paymentType = ''half'', paymentTypeId = 1,
           paymentAmount = Fin 150, amountPaid = Fin 0\<rparr>"

definition tenth :: rat where
  "tenth = 3602879701896397 / 36028797018963968"

text \<open>
  An order of total 300, alone in a store.
\<close>

definition isValid0 :: "string \<Rightarrow> bool" where
  "isValid0 s = (s \<noteq> ''bad'' \<and> s \<noteq> [])"

definition ord0 :: order where
  "ord0 = \<lparr>order_shop = ''s1'', salesman = ''u1'',
           orderLines = [\<lparr>product = ''p1'', productName = ''P1'', ol_quantity = Fin 3,
                            unitPrice = Fin 100, lineTotal = Fin 300\<rparr>],
           totalAmount = Fin 300, paymentType = ''half'', paymentTypeId = 1,
           paymentAmount = Fin 150, amountPaid = Fin 0\<rparr>"

definition d2 :: store where
  "d2 = \<lparr>shops = Map.empty, items = Map.empty, orders = [''o1'' \<mapsto> ord0]\<rparr>"

text \<open>
  Two users, the second one blocked, with stand-ins for the hash functions and for
  \<open>bcrypt.compare\<close>.
\<close>

definition hash0 :: "string \<Rightarrow> string" where
  "hash0 p = CHR ''#'' # p"

definition compare0 :: "string \<Rightarrow> string \<Rightarrow> bool" where
  "compare0 p h = (h = hash0 p)"

definition alice :: user where
  "alice = \<lparr>user_id = ''u1'', user_name = ''Alice'', phone = Some ''1'', address = Some ''A'',
            idCardNumber = None, email = Some ''a@x'', password = hash0 ''Passw0rd!'',
            role = ''salesman'', isActive = Some True, resetCode = None,
            resetCodeExpiry = None, refreshToken = Some ''rt1''\<rparr>"

definition bob :: user where
  "bob = \<lparr>user_id = ''u2'', user_name = ''Bob'', phone = Some ''2'', address = Some ''B'',
          idCardNumber = None, email = Some ''b@x'', password = hash0 ''Passw0rd!'',
          role = ''salesman'', isActive = Some False, resetCode = None,
          resetCodeExpiry = None, refreshToken = None\<rparr>"

text \<open>A string of six decimal digits.\<close>

definition sixDigits :: "string \<Rightarrow> bool" where
  "sixDigits c = (length c = 6 \<and> (\<forall>x \<in> set c. isDigit x))"

text \<open>Stand-ins for \<open>jwt.verify\<close> and \<open>jwt.sign\<close>, and a signup body that asks for a salesman.\<close>

definition verifyRefresh0 :: "string \<Rightarrow> bool" where
  "verifyRefresh0 t = (t = ''rt1'')"

definition signAccess0 :: "objectId \<Rightarrow> string \<Rightarrow> string" where
  "signAccess0 i r = ''access:'' @ i @ '':'' @ r"

definition signRefresh0 :: "objectId \<Rightarrow> string" where
  "signRefresh0 i = ''refresh:'' @ i"

definition verify0 :: "string \<Rightarrow> payload option" where
  "verify0 t = (if t = ''tok2'' then Some \<lparr>pl_id = ''u2'', pl_role = Some ''salesman''\<rparr> else None)"

definition sb0 :: signupBody where
  "sb0 = \<lparr>sb_name = Some ''Carol'', sb_phone = Some ''3'', sb_address = Some ''C'',
          sb_email = Some ''c@x'', sb_password = Some ''Passw0rd!'', sb_role = Some ''salesman''\<rparr>"

section \<open>Properties of the Numbers\<close>

text \<open>
  Rounding keeps every integer up to \<open>2 ^ 53\<close> in absolute value, and keeps the
  sign of what it rounds.
\<close>

lemma roundHalfEven_of_int: "roundHalfEven (of_int k) = k"
  by (simp add: roundHalfEven_def)

lemma roundHalfEven_nonneg: "0 \<le> y \<Longrightarrow> 0 \<le> roundHalfEven y"
proof -
  assume "0 \<le> y"
  then have "0 \<le> \<lfloor>y\<rfloor>" by simp
  then show ?thesis by (simp add: roundHalfEven_def Let_def)
qed

lemma pow2_pos: "0 < pow2 e"
  by (simp add: pow2_def)

lemma bitLength_lower: "0 < n \<Longrightarrow> 1 \<le> bitLength n \<and> 2 ^ nat (bitLength n - 1) \<le> n"
proof (induction n rule: bitLength.induct)
  case (1 n)
  show ?case
  proof (cases "n div 2 = 0")
    case True
    with "1.prems" have "n = 1" by presburger
    then show ?thesis
      by (simp add: bitLength.simps [of 1] bitLength.simps [of 0])
  next
    case False
    with "1.prems" have pos: "0 < n div 2" by presburger
    with "1.IH" "1.prems" have ih: "1 \<le> bitLength (n div 2)"
      "2 ^ nat (bitLength (n div 2) - 1) \<le> n div 2"
      by simp_all
    have b: "bitLength n = 1 + bitLength (n div 2)"
      using "1.prems" by (subst bitLength.simps) simp
    have "nat (bitLength n - 1) = Suc (nat (bitLength (n div 2) - 1))"
      using ih(1) b by simp
    then have "(2::int) ^ nat (bitLength n - 1) = 2 * 2 ^ nat (bitLength (n div 2) - 1)"
      by simp
    also have "\<dots> \<le> 2 * (n div 2)" using ih(2) by simp
    also have "\<dots> \<le> n" by presburger
    finally show ?thesis using b ih(1) by simp
  qed
qed

lemma round64_nonNeg:
  assumes "0 \<le> x"
  shows "nonNeg (round64 x)"
proof (cases "x = 0")
  case True
  then show ?thesis by (simp add: round64_def)
next
  case False
  with assms have pos: "0 < x" by simp
  define ulp where "ulp = pow2 (max (exponent \<bar>x\<bar>) (- 1022) - 52)"
  have "0 < ulp" by (simp add: ulp_def pow2_pos)
  with pos have "0 \<le> x / ulp" by simp
  then have "0 \<le> roundHalfEven (x / ulp)" by (rule roundHalfEven_nonneg)
  with \<open>0 < ulp\<close> have "0 \<le> of_int (roundHalfEven (x / ulp)) * ulp" by simp
  with pos show ?thesis
    by (simp add: round64_def Let_def ulp_def)
qed

lemma round64_of_int:
  assumes "\<bar>n\<bar> \<le> 2 ^ 53"
  shows "round64 (of_int n) = Fin (of_int n)"
proof (cases "n = 0")
  case True
  then show ?thesis by (simp add: round64_def)
next
  case False
  define m where "m = \<bar>n\<bar>"
  from False have m1: "1 \<le> m" by (simp add: m_def)
  define e where "e = bitLength m - 1"
  from bitLength_lower [of m] m1 have e0: "0 \<le> e" and low: "2 ^ nat e \<le> m"
    by (simp_all add: e_def)
  from low assms have le: "(2::int) ^ nat e \<le> 2 ^ 53" by (simp add: m_def)
  have "(1::int) < 2" by simp
  from power_le_imp_le_exp [OF this le] have "nat e \<le> 53" .
  with e0 have e53: "e \<le> 53" by simp
  have abs: "\<bar>of_int n :: rat\<bar> = of_int m" by (simp add: m_def)
  have ex: "exponent \<bar>of_int n\<bar> = e"
    using m1 by (simp add: abs exponent_def e_def)
  have mx: "max e (- 1022) = e" using e0 by simp
  have whole: "\<exists>k. (of_int n :: rat) / pow2 (e - 52) = of_int k"
  proof (cases "e \<le> 52")
    case True
    then have "pow2 (e - 52) = 1 / 2 ^ nat (52 - e)"
      by (cases "e = 52") (simp_all add: pow2_def)
    then have "(of_int n :: rat) / pow2 (e - 52) = of_int n * 2 ^ nat (52 - e)"
      by simp
    also have "\<dots> = of_int (n * 2 ^ nat (52 - e))" by simp
    finally show ?thesis by blast
  next
    case False
    with e53 have e: "e = 53" by simp
    with low assms have "m = 2 ^ 53" by (simp add: m_def)
    then have "even m" by simp
    then have "even n" by (simp add: m_def)
    then obtain k where "n = 2 * k" by (auto elim: evenE)
    then have "(of_int n :: rat) / pow2 (e - 52) = of_int k"
      by (simp add: e pow2_def)
    then show ?thesis by blast
  qed
  then obtain k where k: "(of_int n :: rat) / pow2 (e - 52) = of_int k" by blast
  have "0 < pow2 (e - 52)" by (rule pow2_pos)
  with k have again: "of_int k * pow2 (e - 52) = (of_int n :: rat)"
    by (simp add: field_simps)
  from False e53 show ?thesis
    by (simp add: round64_def Let_def ex mx k roundHalfEven_of_int again)
qed

lemma round64_0: "round64 0 = Fin 0"
  by (simp add: round64_def)

lemma round64_numeral:
  "(numeral k :: int) \<le> 2 ^ 53 \<Longrightarrow> round64 (numeral k) = Fin (numeral k)"
  using round64_of_int [of "numeral k"] by simp

lemma round64_1: "round64 1 = Fin 1"
  using round64_of_int [of 1] by simp

lemma round64_product:
  assumes "0 \<le> q * p" "q * p \<le> 2 ^ 53"
  shows "dmul (Fin (of_int q)) (Fin (of_int p)) = Fin (of_int (q * p))"
proof -
  from assms have "\<bar>q * p\<bar> \<le> 2 ^ 53" by simp
  from round64_of_int [OF this] show ?thesis by simp
qed

lemma foldl_dadd_exact:
  assumes "0 \<le> a" "\<forall>k \<in> set ks. 0 \<le> k" "a + sum_list ks \<le> 2 ^ 53"
  shows "foldl dadd (Fin (of_int a)) (map (\<lambda>k. Fin (of_int k)) ks) = Fin (of_int (a + sum_list ks))"
  using assms
proof (induction ks arbitrary: a)
  case Nil
  then show ?case by simp
next
  case (Cons k ks)
  from Cons.prems have k: "0 \<le> k" and rest: "\<forall>k \<in> set ks. 0 \<le> k" by simp_all
  from rest have s: "0 \<le> sum_list ks" by (simp add: sum_list_nonneg)
  from Cons.prems(1,3) k s have "\<bar>a + k\<bar> \<le> 2 ^ 53" by simp
  from round64_of_int [OF this] have step: "dadd (Fin (of_int a)) (Fin (of_int k)) = Fin (of_int (a + k))"
    by simp
  from Cons.prems(1,3) k have "0 \<le> a + k" "a + k + sum_list ks \<le> 2 ^ 53" by simp_all
  from Cons.IH [OF this(1) rest this(2)] step show ?case
    by (simp add: add.assoc)
qed

lemma sum_list_member_le:
  fixes xs :: "int list"
  assumes "\<forall>x \<in> set xs. 0 \<le> x" "x \<in> set xs"
  shows "x \<le> sum_list xs"
  using assms
proof (induction xs)
  case Nil
  then show ?case by simp
next
  case (Cons y ys)
  from Cons.prems(1) have "0 \<le> y" "0 \<le> sum_list ys" by (simp_all add: sum_list_nonneg)
  with Cons show ?case by auto
qed

lemma dsub_nonNeg:
  assumes "nonNeg s" "\<not> dless s q" "\<not> dless q (Fin 1)" "dsub s q \<noteq> NaN"
  shows "nonNeg (dsub s q)"
proof (cases s)
  case (Fin a)
  with assms(1) have a: "0 \<le> a" by simp
  show ?thesis
  proof (cases q)
    case (Fin k)
    with assms(2) \<open>s = Fin a\<close> have "0 \<le> a - k" by simp
    then have "nonNeg (round64 (a - k))" by (rule round64_nonNeg)
    with Fin \<open>s = Fin a\<close> show ?thesis by (simp add: dsub_def)
  qed (use Fin assms in \<open>simp_all add: dsub_def\<close>)
qed (use assms in \<open>cases q; simp_all add: dsub_def\<close>)+

text \<open>
  Two roundings that are not exact: \<open>2 ^ 53 + 1\<close> is not a double, and three
  times the double nearest to one tenth is not a double either.
\<close>

lemma round64_2p53_1: "round64 9007199254740993 = Fin 9007199254740992"
  by code_simp

lemma round64_tenth_3:
  "round64 (3 * (3602879701896397 / 36028797018963968)) = Fin (1351079888211149 / 4503599627370496)"
  by code_simp

lemma mongooseCast_castNumber0: "mongooseCast castNumber0"
  unfolding mongooseCast_def
  by (auto simp: castNumber0_def split: jsval.splits if_splits)

lemma mongooseCast_JNum:
  assumes "mongooseCast castNumber" "castNumber (JNum d) = Some x"
  shows "x = d" "x \<noteq> NaN"
proof -
  from assms have "x = toNumber (JNum d) \<and> x \<noteq> NaN"
    unfolding mongooseCast_def by blast
  then show "x = d" "x \<noteq> NaN" by auto
qed

section \<open>Properties of the order service\<close>

subsection \<open>The loop over the lines\<close>

lemma requestedOf_Nil: "requestedOf cast oid [] = []"
  by (simp add: requestedOf_def)

lemma requestedOf_Cons:
  "requestedOf cast oid (l # ls) = requestedOf cast oid [l] @ requestedOf cast oid ls"
  by (simp add: requestedOf_def)

lemma stockAfter_Nil: "stockAfter cast its [] = its"
  by (rule ext) (simp add: stockAfter_def requestedOf_Nil option.map_ident)

lemma stockAfter_Cons:
  "stockAfter cast (stockAfter cast its [l]) ls = stockAfter cast its (l # ls)"
  by (rule ext)
     (simp add: stockAfter_def requestedOf_Cons [of cast _ l ls] option.map_comp comp_def)

lemma processLine_Inr:
  assumes "processLine cast castNumber its l = Inr (pl, its')"
  shows "\<exists>pid p left.
           lineGuard l = Some (pid, pushed_quantity pl) \<and> cast pid = Some (pushed_product pl)
         \<and> its (pushed_product pl) = Some p
         \<and> \<not> dless (quantity p) (toNumber (pushed_quantity pl))
         \<and> \<not> dless (toNumber (pushed_quantity pl)) (Fin 1)
         \<and> castNumber (JNum (dsub (quantity p) (toNumber (pushed_quantity pl)))) = Some left
         \<and> pushed_productName pl = name p \<and> pushed_unitPrice pl = price p
         \<and> pushed_lineTotal pl = dmul (toNumber (pushed_quantity pl)) (price p)
         \<and> its' = its(pushed_product pl \<mapsto> p\<lparr>quantity := left\<rparr>)"
  using assms
  by (auto simp: processLine_def lineGuard_def split: option.splits if_splits prod.splits)

lemma processLine_Inl:
  assumes "processLine cast castNumber its l = Inl r"
  shows "\<exists>c m. r = Json c m \<or> r = ServerError"
  using assms
  by (auto simp: processLine_def split: option.splits if_splits prod.splits)

lemma processLine_stockAfter:
  assumes "mongooseCast castNumber" and "processLine cast castNumber its l = Inr (pl, its')"
  shows "its' = stockAfter cast its [l]"
proof -
  from processLine_Inr [OF assms(2)] obtain pid p left where
    g: "lineGuard l = Some (pid, pushed_quantity pl)" "cast pid = Some (pushed_product pl)"
    and p: "its (pushed_product pl) = Some p"
    and c: "castNumber (JNum (dsub (quantity p) (toNumber (pushed_quantity pl)))) = Some left"
    and its': "its' = its(pushed_product pl \<mapsto> p\<lparr>quantity := left\<rparr>)"
    by blast
  from mongooseCast_JNum [OF assms(1) c]
  have "left = dsub (quantity p) (toNumber (pushed_quantity pl))" by simp
  with g p its' show ?thesis
    by (intro ext) (auto simp: stockAfter_def requestedOf_def option.map_ident)
qed

lemma processLines_Inr:
  assumes "processLines cast castNumber its ls acc tot = (its', Inr (pls, tot'))"
  shows "\<exists>new. pls = acc @ new \<and> length new = length ls
           \<and> tot' = foldl dadd tot (map pushed_lineTotal new)"
  using assms
proof (induction ls arbitrary: its acc tot)
  case Nil
  then show ?case by simp
next
  case (Cons l ls)
  from Cons.prems obtain pl its1 where
    step: "processLine cast castNumber its l = Inr (pl, its1)"
    and rest: "processLines cast castNumber its1 ls (acc @ [pl]) (dadd tot (pushed_lineTotal pl))
        = (its', Inr (pls, tot'))"
    by (auto split: sum.splits prod.splits)
  from Cons.IH [OF rest] obtain new where
    "pls = (acc @ [pl]) @ new" "length new = length ls"
    "tot' = foldl dadd (dadd tot (pushed_lineTotal pl)) (map pushed_lineTotal new)"
    by blast
  then show ?case
    by (intro exI [of _ "pl # new"]) simp
qed

lemma processLines_stockAfter:
  assumes "mongooseCast castNumber"
    and "processLines cast castNumber its ls acc tot = (its', res)"
  shows "\<exists>pre. (case res of Inr x \<Rightarrow> pre = ls | Inl r \<Rightarrow> \<exists>l post. ls = pre @ l # post)
           \<and> its' = stockAfter cast its pre"
  using assms(2)
proof (induction ls arbitrary: its acc tot)
  case Nil
  then show ?case by (auto simp: stockAfter_Nil)
next
  case (Cons l ls)
  show ?case
  proof (cases "processLine cast castNumber its l")
    case (Inl r)
    with Cons.prems have "its' = its" "res = Inl r" by auto
    then show ?thesis
      by (intro exI [of _ "[]"]) (simp add: stockAfter_Nil)
  next
    case (Inr x)
    obtain pl its1 where x: "x = (pl, its1)" by (cases x)
    from Inr x have its1: "its1 = stockAfter cast its [l]"
      using processLine_stockAfter [OF assms(1)] by blast
    from Cons.prems Inr x have
      "processLines cast castNumber its1 ls (acc @ [pl]) (dadd tot (pushed_lineTotal pl)) = (its', res)"
      by simp
    from Cons.IH [OF this] obtain pre where
      pre: "case res of Inr x \<Rightarrow> pre = ls | Inl r \<Rightarrow> \<exists>l post. ls = pre @ l # post"
      and s: "its' = stockAfter cast its1 pre"
      by blast
    from s its1 have "its' = stockAfter cast its (l # pre)"
      by (simp add: stockAfter_Cons)
    moreover from pre have
      "case res of Inr x \<Rightarrow> l # pre = l # ls | Inl r \<Rightarrow> \<exists>l' post. l # ls = (l # pre) @ l' # post"
      by (auto split: sum.splits)
    ultimately show ?thesis by blast
  qed
qed

lemma processLines_nonNegative:
  assumes "mongooseCast castNumber"
    and "processLines cast castNumber its ls acc tot = (its', res)" and "nonNegative its"
  shows "nonNegative its'"
  using assms(2,3)
proof (induction ls arbitrary: its acc tot)
  case Nil
  then show ?case by simp
next
  case (Cons l ls)
  show ?case
  proof (cases "processLine cast castNumber its l")
    case (Inl r)
    with Cons.prems show ?thesis by simp
  next
    case (Inr x)
    obtain pl its1 where x: "x = (pl, its1)" by (cases x)
    from Inr x processLine_Inr obtain p left where
      p: "its (pushed_product pl) = Some p"
      and g: "\<not> dless (quantity p) (toNumber (pushed_quantity pl))"
        "\<not> dless (toNumber (pushed_quantity pl)) (Fin 1)"
      and c: "castNumber (JNum (dsub (quantity p) (toNumber (pushed_quantity pl)))) = Some left"
      and its1: "its1 = its(pushed_product pl \<mapsto> p\<lparr>quantity := left\<rparr>)"
      by blast
    from mongooseCast_JNum [OF assms(1) c]
    have left: "left = dsub (quantity p) (toNumber (pushed_quantity pl))" "left \<noteq> NaN"
      by simp_all
    from Cons.prems(2) p have "nonNeg (quantity p)" by (simp add: nonNegative_def)
    from dsub_nonNeg [OF this g] left have "nonNeg left" by simp
    with Cons.prems(2) its1 have "nonNegative its1"
      by (auto simp: nonNegative_def)
    moreover from Cons.prems(1) Inr x have
      "processLines cast castNumber its1 ls (acc @ [pl]) (dadd tot (pushed_lineTotal pl)) = (its', res)"
      by simp
    ultimately show ?thesis by (rule Cons.IH [rotated])
  qed
qed

lemma processLines_Inl:
  assumes "processLines cast castNumber its ls acc tot = (its', Inl r)"
  shows "r \<noteq> JsonWith c m ord"
  using assms
proof (induction ls arbitrary: its acc tot)
  case Nil
  then show ?case by simp
next
  case (Cons l ls)
  show ?case
  proof (cases "processLine cast castNumber its l")
    case (Inl r')
    with Cons.prems have "r' = r" by simp
    with processLine_Inl [OF Inl] show ?thesis by auto
  next
    case (Inr x)
    obtain pl its1 where "x = (pl, its1)" by (cases x)
    with Cons.prems Inr have
      "processLines cast castNumber its1 ls (acc @ [pl]) (dadd tot (pushed_lineTotal pl)) = (its', Inl r)"
      by simp
    then show ?thesis by (rule Cons.IH)
  qed
qed

lemma processLines_exact:
  assumes "mongooseCast castNumber"
    and "processLines cast castNumber its ls acc tot = (its', Inr (pls, tot'))"
    and "its oid = Some p" and "quantity p = Fin (of_int s)" and "0 \<le> s" and "s \<le> 2 ^ 53"
    and "requestedOf cast oid ls = map (\<lambda>k. Fin (of_int k)) ks"
  shows "its' oid = Some (p\<lparr>quantity := Fin (of_int (s - sum_list ks))\<rparr>)
       \<and> sum_list ks \<le> s \<and> (\<forall>k \<in> set ks. 1 \<le> k)"
  using assms(2-)
proof (induction ls arbitrary: its acc tot p s ks)
  case Nil
  then show ?case by (simp add: requestedOf_Nil)
next
  case (Cons l ls)
  from Cons.prems(1) obtain pl its1 where
    step: "processLine cast castNumber its l = Inr (pl, its1)"
    and rest: "processLines cast castNumber its1 ls (acc @ [pl]) (dadd tot (pushed_lineTotal pl))
        = (its', Inr (pls, tot'))"
    by (auto split: sum.splits prod.splits)
  from processLine_Inr [OF step] obtain pid p0 left where
    g: "lineGuard l = Some (pid, pushed_quantity pl)" "cast pid = Some (pushed_product pl)"
    and p0: "its (pushed_product pl) = Some p0"
    and c1: "\<not> dless (quantity p0) (toNumber (pushed_quantity pl))"
    and c2: "\<not> dless (toNumber (pushed_quantity pl)) (Fin 1)"
    and c: "castNumber (JNum (dsub (quantity p0) (toNumber (pushed_quantity pl)))) = Some left"
    and its1: "its1 = its(pushed_product pl \<mapsto> p0\<lparr>quantity := left\<rparr>)"
    by blast
  from mongooseCast_JNum [OF assms(1) c]
  have left: "left = dsub (quantity p0) (toNumber (pushed_quantity pl))" by simp
  show ?case
  proof (cases "pushed_product pl = oid")
    case False
    with g have "requestedOf cast oid [l] = []" by (auto simp: requestedOf_def)
    then have r: "requestedOf cast oid ls = map (\<lambda>k. Fin (of_int k)) ks"
      using Cons.prems(6) by (simp add: requestedOf_Cons [of cast oid l ls])
    from False its1 Cons.prems(2) have "its1 oid = Some p" by simp
    from Cons.IH [OF rest this Cons.prems(3,4,5) r] show ?thesis .
  next
    case True
    with g have one: "requestedOf cast oid [l] = [toNumber (pushed_quantity pl)]"
      by (simp add: requestedOf_def)
    with Cons.prems(6) obtain k ks' where ks: "ks = k # ks'"
      and k: "toNumber (pushed_quantity pl) = Fin (of_int k)"
      and r: "requestedOf cast oid ls = map (\<lambda>k. Fin (of_int k)) ks'"
      by (cases ks) (auto simp: requestedOf_Cons [of cast oid l ls])
    from True p0 Cons.prems(2) have "p0 = p" by simp
    with c1 c2 k Cons.prems(3) have k1: "1 \<le> k" and ks: "k \<le> s"
      and ks': "ks = k # ks'"
      using ks by simp_all
    from k1 ks Cons.prems(4,5) have "\<bar>s - k\<bar> \<le> 2 ^ 53" by simp
    from round64_of_int [OF this] have "left = Fin (of_int (s - k))"
      using left k \<open>p0 = p\<close> Cons.prems(3) by (simp add: dsub_def)
    with its1 True \<open>p0 = p\<close> have i: "its1 oid = Some (p\<lparr>quantity := Fin (of_int (s - k))\<rparr>)"
      by simp
    have q: "quantity (p\<lparr>quantity := Fin (of_int (s - k))\<rparr>) = Fin (of_int (s - k))" by simp
    from k1 ks Cons.prems(4,5) have b: "0 \<le> s - k" "s - k \<le> 2 ^ 53" by simp_all
    from Cons.IH [OF rest i q b r] k1 show ?thesis
      by (simp add: ks' algebra_simps)
  qed
qed

lemma processLines_pushed:
  assumes "processLines cast castNumber its ls acc tot = (its', Inr (acc @ new, tot'))"
  shows "\<forall>pl \<in> set new.
           pushed_lineTotal pl = dmul (toNumber (pushed_quantity pl)) (pushed_unitPrice pl)
         \<and> (\<exists>p. its (pushed_product pl) = Some p \<and> pushed_productName pl = name p
                \<and> pushed_unitPrice pl = price p)"
  using assms
proof (induction ls arbitrary: its acc tot new)
  case Nil
  then show ?case by simp
next
  case (Cons l ls)
  from Cons.prems obtain pl its1 where
    step: "processLine cast castNumber its l = Inr (pl, its1)"
    and rest: "processLines cast castNumber its1 ls (acc @ [pl]) (dadd tot (pushed_lineTotal pl))
        = (its', Inr (acc @ new, tot'))"
    by (auto split: sum.splits prod.splits)
  from processLines_Inr [OF rest] obtain new' where "acc @ new = (acc @ [pl]) @ new'"
    by blast
  then have new: "new = pl # new'" by simp
  from processLine_Inr [OF step] obtain p0 left where
    p0: "its (pushed_product pl) = Some p0" "pushed_productName pl = name p0"
      "pushed_unitPrice pl = price p0"
      "pushed_lineTotal pl = dmul (toNumber (pushed_quantity pl)) (price p0)"
    and its1: "its1 = its(pushed_product pl \<mapsto> p0\<lparr>quantity := left\<rparr>)"
    by blast
  from rest have "processLines cast castNumber its1 ls (acc @ [pl]) (dadd tot (pushed_lineTotal pl))
      = (its', Inr ((acc @ [pl]) @ new', tot'))"
    by (simp add: new)
  from Cons.IH [OF this] have later:
    "\<forall>x \<in> set new'.
       pushed_lineTotal x = dmul (toNumber (pushed_quantity x)) (pushed_unitPrice x)
     \<and> (\<exists>p. its1 (pushed_product x) = Some p \<and> pushed_productName x = name p
            \<and> pushed_unitPrice x = price p)" .
  have "pushed_lineTotal x = dmul (toNumber (pushed_quantity x)) (pushed_unitPrice x)
     \<and> (\<exists>p. its (pushed_product x) = Some p \<and> pushed_productName x = name p
            \<and> pushed_unitPrice x = price p)"
    if "x \<in> set new'" for x
  proof -
    from later that obtain p where
      t: "pushed_lineTotal x = dmul (toNumber (pushed_quantity x)) (pushed_unitPrice x)"
      and p: "its1 (pushed_product x) = Some p" "pushed_productName x = name p"
        "pushed_unitPrice x = price p"
      by blast
    show ?thesis
    proof (cases "pushed_product x = pushed_product pl")
      case True
      with p its1 have "p = p0\<lparr>quantity := left\<rparr>" by simp
      with t p p0 True show ?thesis by simp
    next
      case False
      with t p its1 show ?thesis by simp
    qed
  qed
  with p0 show ?case by (simp add: new)
qed

lemma lineTotals_exact:
  assumes "\<forall>ol \<in> set ols. lineTotal ol = dmul (ol_quantity ol) (unitPrice ol)"
    and "map ol_quantity ols = map (\<lambda>k. Fin (of_int k)) qs"
    and "map unitPrice ols = map (\<lambda>k. Fin (of_int k)) ps"
    and "\<forall>x \<in> set (map2 (*) qs ps). 0 \<le> x \<and> x \<le> 2 ^ 53"
  shows "map lineTotal ols = map (\<lambda>k. Fin (of_int k)) (map2 (*) qs ps)"
  using assms
proof (induction ols arbitrary: qs ps)
  case Nil
  then show ?case by simp
next
  case (Cons ol ols)
  from Cons.prems(2) obtain q qs' where qs: "qs = q # qs'" "ol_quantity ol = Fin (of_int q)"
    "map ol_quantity ols = map (\<lambda>k. Fin (of_int k)) qs'"
    by (cases qs) auto
  from Cons.prems(3) obtain p ps' where ps: "ps = p # ps'" "unitPrice ol = Fin (of_int p)"
    "map unitPrice ols = map (\<lambda>k. Fin (of_int k)) ps'"
    by (cases ps) auto
  from Cons.prems(4) qs(1) ps(1) have b: "0 \<le> q * p" "q * p \<le> 2 ^ 53"
    and rest: "\<forall>x \<in> set (map2 (*) qs' ps'). 0 \<le> x \<and> x \<le> 2 ^ 53"
    by simp_all
  from Cons.prems(1) have "lineTotal ol = dmul (ol_quantity ol) (unitPrice ol)" by simp
  with qs(2) ps(2) round64_product [OF b] have "lineTotal ol = Fin (of_int (q * p))" by simp
  moreover from Cons.prems(1) have "\<forall>x \<in> set ols. lineTotal x = dmul (ol_quantity x) (unitPrice x)"
    by simp
  from Cons.IH [OF this qs(3) ps(3) rest]
  have "map lineTotal ols = map (\<lambda>k. Fin (of_int k)) (map2 (*) qs' ps')" .
  ultimately show ?case by (simp add: qs(1) ps(1))
qed

subsection \<open>Created orders\<close>

lemma orderChecks_Inl:
  assumes "orderChecks cast d b = Inl r"
  shows "r \<noteq> JsonWith c m ord"
  using assms
  by (auto simp: orderChecks_def Let_def split: option.splits list.splits if_splits)

lemma orderChecks_Inr:
  assumes "orderChecks cast d b = Inr (soid, ls, pt, amount)"
  shows "body_items b = Some ls"
  using assms
  by (auto simp: orderChecks_def Let_def split: option.splits list.splits if_splits)

lemma placeOrder_created:
  assumes "placeOrder cast castNumber newId uid d b = (d', JsonWith c m ord)"
  shows "\<exists>soid ls pt amount pls tot.
           orderChecks cast d b = Inr (soid, ls, pt, amount)
         \<and> processLines cast castNumber (items d) ls [] (Fin 0) = (items d', Inr (pls, tot))
         \<and> castLines castNumber pls = Some (orderLines ord)
         \<and> castNumber (JNum tot) = Some (totalAmount ord)
         \<and> amountPaid ord = Fin 0
         \<and> orders d' = (orders d)(newId \<mapsto> ord) \<and> shops d' = shops d"
proof (cases "orderChecks cast d b")
  case (Inl r)
  with assms orderChecks_Inl [OF Inl, of c m ord] show ?thesis
    by (simp add: placeOrder_def)
next
  case (Inr x)
  obtain soid ls pt amount where x: "x = (soid, ls, pt, amount)" by (cases x)
  obtain its' res where run: "processLines cast castNumber (items d) ls [] (Fin 0) = (its', res)"
    by (cases "processLines cast castNumber (items d) ls [] (Fin 0)")
  show ?thesis
  proof (cases res)
    case (Inl r)
    with run processLines_Inl [of cast castNumber "items d" ls "[]" "Fin 0" its' r c m ord]
    have "r \<noteq> JsonWith c m ord" by simp
    with assms Inr x run Inl show ?thesis
      by (simp add: placeOrder_def createOrder_def)
  next
    case (Inr y)
    obtain pls tot where y: "y = (pls, tot)" by (cases y)
    from assms \<open>orderChecks cast d b = Inr x\<close> x run Inr y show ?thesis
      by (auto simp: placeOrder_def createOrder_def Let_def split: option.splits if_splits)
  qed
qed

lemma castLine_stored:
  assumes "mongooseCast castNumber" "castLine castNumber pl = Some ol"
  shows "ol = storedLine pl"
proof -
  from assms(2) obtain q u t where
    c: "castNumber (pushed_quantity pl) = Some q" "castNumber (JNum (pushed_unitPrice pl)) = Some u"
      "castNumber (JNum (pushed_lineTotal pl)) = Some t"
    and ol: "ol = \<lparr>product = pushed_product pl, productName = pushed_productName pl,
                   ol_quantity = q, unitPrice = u, lineTotal = t\<rparr>"
    by (auto simp: castLine_def split: option.splits if_splits)
  from assms(1) c(1) have "q = toNumber (pushed_quantity pl)"
    unfolding mongooseCast_def by blast
  with mongooseCast_JNum(1) [OF assms(1) c(2)] mongooseCast_JNum(1) [OF assms(1) c(3)] ol
  show ?thesis by (simp add: storedLine_def)
qed

lemma castLines_stored:
  assumes "mongooseCast castNumber" "castLines castNumber pls = Some ols"
  shows "ols = map storedLine pls"
  using assms(2)
proof (induction pls arbitrary: ols)
  case Nil
  then show ?case by simp
next
  case (Cons pl pls)
  from Cons.prems obtain ol ols' where
    "castLine castNumber pl = Some ol" "castLines castNumber pls = Some ols'" "ols = ol # ols'"
    by (auto split: option.splits)
  with Cons.IH [of ols'] castLine_stored [OF assms(1)] show ?case by simp
qed

lemma orderChecks_request:
  "orderChecks cast0 (stock pr qty) (request (l # ls)) = Inr (''s1'', l # ls, ''half'', Fin 150)"
  by (simp add: orderChecks_def cast0_def stock_def request_def validPaymentTypes_def)

lemma placeOrder_two_lines:
  "placeOrder cast0 castNumber0 ''o1'' ''u1'' d0 (request [ask ''p1'' 3, ask ''p1'' 4])
     = (d0\<lparr>items := [''p1'' \<mapsto> \<lparr>name = ''P1'', categoryType = ''c1'', price = Fin 100,
                                  quantity = Fin 3\<rparr>],
           orders := [''o1'' \<mapsto> ord1]\<rparr>,
        JsonWith 201 ''Order created successfully'' ord1)"
proof -
  have s: "dsub (Fin 10) (Fin 3) = Fin 7" "dsub (Fin 7) (Fin 4) = Fin 3"
    by (simp_all add: dsub_def round64_numeral)
  show ?thesis
    unfolding placeOrder_def d0_def orderChecks_request
    by (simp add: createOrder_def processLine_def lineGuard_def ask_def cast0_def stock_def
        castNumber0_def castLine_def s round64_numeral round64_0 paymentTypeToId_def Let_def
        ord1_def)
qed

text \<open>
  Claim C2. The lines of \<open>POST /order\<close> are handled one after the other, and a
  line whose product is not found is to be refused as such. For a product id that is
  not the string of an ObjectId the handler does something else: \<open>Item.findById\<close>
  throws, and the \<open>catch\<close> of the handler answers 500. Here the first line, for 3
  of a product with 10 in stock, has been saved (7 are left), the second line has the
  id \<open>bad\<close>, the answer is 500 and no order is stored. The same request with an id
  that is well formed and unknown is answered 400, \<open>Product not found\<close>; and the
  payment route answers 400 to the same string as an order id, since it tests
  \<open>ObjectId.isValid\<close> before it looks the order up.
\<close>

theorem placeOrder_malformed_productId:
  "snd (placeOrder cast0 castNumber0 ''o1'' ''u1'' d0 (request [ask ''p1'' 3, ask ''bad'' 1]))
     = ServerError
   \<and> items (fst (placeOrder cast0 castNumber0 ''o1'' ''u1'' d0 (request [ask ''p1'' 3, ask ''bad'' 1]))) ''p1''
       = Some \<lparr>name = ''P1'', categoryType = ''c1'', price = Fin 100, quantity = Fin 7\<rparr>
   \<and> orders (fst (placeOrder cast0 castNumber0 ''o1'' ''u1'' d0 (request [ask ''p1'' 3, ask ''bad'' 1])))
       = orders d0
   \<and> snd (placeOrder cast0 castNumber0 ''o1'' ''u1'' d0 (request [ask ''p1'' 3, ask ''p9'' 1]))
       = Json 400 ''Product not found: p9''
   \<and> recordPayment isValid0 cast0 d2 ''bad'' (JNum (Fin 300)) = (d2, Json 400 invalidOrderId)"
proof -
  have s: "dsub (Fin 10) (Fin 3) = Fin 7"
    by (simp add: dsub_def round64_numeral)
  have "placeOrder cast0 castNumber0 ''o1'' ''u1'' d0 (request [ask ''p1'' 3, ask ''bad'' 1])
    = (d0\<lparr>items := (items d0)(''p1'' \<mapsto> \<lparr>name = ''P1'', categoryType = ''c1'', price = Fin 100, quantity = Fin 7\<rparr>)\<rparr>,
       ServerError)"
    unfolding placeOrder_def d0_def orderChecks_request
    by (simp add: createOrder_def processLine_def lineGuard_def ask_def cast0_def stock_def
        castNumber0_def s)
  moreover have "placeOrder cast0 castNumber0 ''o1'' ''u1'' d0 (request [ask ''p1'' 3, ask ''p9'' 1])
    = (d0\<lparr>items := (items d0)(''p1'' \<mapsto> \<lparr>name = ''P1'', categoryType = ''c1'', price = Fin 100, quantity = Fin 7\<rparr>)\<rparr>,
       Json 400 ''Product not found: p9'')"
    unfolding placeOrder_def d0_def orderChecks_request
    by (simp add: createOrder_def processLine_def lineGuard_def ask_def cast0_def stock_def
        castNumber0_def s)
  moreover have "recordPayment isValid0 cast0 d2 ''bad'' (JNum (Fin 300)) = (d2, Json 400 invalidOrderId)"
    by (simp add: recordPayment_def isValid0_def)
  ultimately show ?thesis by simp
qed

text \<open>
  Claim C3, as the code has it. When \<open>POST /order\<close> creates an order, the stock of
  every product is its stock before the call with the quantities that the lines ask of
  it subtracted one after the other, in the order of the lines, each subtraction a
  subtraction of Numbers (nothing is subtracted for a product without a line). If no
  stock was negative before the call, none is after it, also when several lines name
  the same product. Where the stock of a product is an integer between 0 and
  \<open>2 ^ 53\<close> and the quantities asked of it are integers, the new stock is exactly
  the old stock less their sum, and that sum is at most the old stock.
\<close>

theorem placeOrder_stock:
  assumes "mongooseCast castNumber"
    and "placeOrder cast castNumber newId uid d b = (d', JsonWith c m ord)"
  shows "\<exists>ls. body_items b = Some ls
       \<and> (\<forall>oid. items d' oid
              = map_option
                  (\<lambda>p. p\<lparr>quantity := foldl dsub (quantity p) (requestedOf cast oid ls)\<rparr>)
                  (items d oid))
       \<and> (nonNegative (items d) \<longrightarrow> nonNegative (items d'))
       \<and> (\<forall>oid p s ks. items d oid = Some p \<and> quantity p = Fin (of_int s)
              \<and> 0 \<le> s \<and> s \<le> 2 ^ 53
              \<and> requestedOf cast oid ls = map (\<lambda>k. Fin (of_int k)) ks
            \<longrightarrow> items d' oid = Some (p\<lparr>quantity := Fin (of_int (s - sum_list ks))\<rparr>)
              \<and> sum_list ks \<le> s)"
proof -
  from placeOrder_created [OF assms(2)] obtain soid ls pt amount pls tot where
    checks: "orderChecks cast d b = Inr (soid, ls, pt, amount)"
    and run: "processLines cast castNumber (items d) ls [] (Fin 0) = (items d', Inr (pls, tot))"
    by blast
  from processLines_stockAfter [OF assms(1) run] have "items d' = stockAfter cast (items d) ls"
    by simp
  then have 1: "\<forall>oid. items d' oid
              = map_option
                  (\<lambda>p. p\<lparr>quantity := foldl dsub (quantity p) (requestedOf cast oid ls)\<rparr>)
                  (items d oid)"
    by (simp add: stockAfter_def)
  have 2: "nonNegative (items d) \<longrightarrow> nonNegative (items d')"
    using processLines_nonNegative [OF assms(1) run] by blast
  have 3: "\<forall>oid p s ks. items d oid = Some p \<and> quantity p = Fin (of_int s)
              \<and> 0 \<le> s \<and> s \<le> 2 ^ 53
              \<and> requestedOf cast oid ls = map (\<lambda>k. Fin (of_int k)) ks
            \<longrightarrow> items d' oid = Some (p\<lparr>quantity := Fin (of_int (s - sum_list ks))\<rparr>)
              \<and> sum_list ks \<le> s"
    using processLines_exact [OF assms(1) run] by blast
  from orderChecks_Inr [OF checks] 1 2 3 show ?thesis by blast
qed

text \<open>
  The decrement is not exact for all Numbers: with \<open>2 ^ 53 + 2\<close> in stock, an
  order for 1 is created and the stored stock is \<open>2 ^ 53\<close>.
\<close>

theorem placeOrder_stock_rounds_counterexample:
  "quantity (the (items (stock (Fin 1) (Fin 9007199254740994)) ''p1'')) = Fin 9007199254740994
   \<and> snd (placeOrder cast0 castNumber0 ''o1'' ''u1'' (stock (Fin 1) (Fin 9007199254740994))
            (request [ask ''p1'' 1]))
       = JsonWith 201 ''Order created successfully''
           \<lparr>order_shop = ''s1'', salesman = ''u1'',
            orderLines = [\<lparr>product = ''p1'', productName = ''P1'', ol_quantity = Fin 1,
                             unitPrice = Fin 1, lineTotal = Fin 1\<rparr>],
            totalAmount = Fin 1, paymentType = ''half'', paymentTypeId = 1,
            paymentAmount = Fin 150, amountPaid = Fin 0\<rparr>
   \<and> quantity (the (items (fst (placeOrder cast0 castNumber0 ''o1'' ''u1''
          (stock (Fin 1) (Fin 9007199254740994)) (request [ask ''p1'' 1]))) ''p1''))
       = Fin 9007199254740992
   \<and> Fin 9007199254740992 \<noteq> Fin (9007199254740994 - 1)"
proof -
  have s: "dsub (Fin 9007199254740994) (Fin 1) = Fin 9007199254740992"
    using round64_2p53_1 by (simp add: dsub_def)
  have "placeOrder cast0 castNumber0 ''o1'' ''u1'' (stock (Fin 1) (Fin 9007199254740994))
            (request [ask ''p1'' 1])
     = ((stock (Fin 1) (Fin 9007199254740994))
          \<lparr>items := [''p1'' \<mapsto> \<lparr>name = ''P1'', categoryType = ''c1'', price = Fin 1,
                                 quantity = Fin 9007199254740992\<rparr>],
           orders := [''o1'' \<mapsto> \<lparr>order_shop = ''s1'', salesman = ''u1'',
            orderLines = [\<lparr>product = ''p1'', productName = ''P1'', ol_quantity = Fin 1,
                             unitPrice = Fin 1, lineTotal = Fin 1\<rparr>],
            totalAmount = Fin 1, paymentType = ''half'', paymentTypeId = 1,
            paymentAmount = Fin 150, amountPaid = Fin 0\<rparr>]\<rparr>,
        JsonWith 201 ''Order created successfully''
           \<lparr>order_shop = ''s1'', salesman = ''u1'',
            orderLines = [\<lparr>product = ''p1'', productName = ''P1'', ol_quantity = Fin 1,
                             unitPrice = Fin 1, lineTotal = Fin 1\<rparr>],
            totalAmount = Fin 1, paymentType = ''half'', paymentTypeId = 1,
            paymentAmount = Fin 150, amountPaid = Fin 0\<rparr>)"
    unfolding placeOrder_def orderChecks_request
    by (simp add: createOrder_def processLine_def lineGuard_def ask_def cast0_def stock_def
        castNumber0_def castLine_def s round64_1 paymentTypeToId_def Let_def)
  then show ?thesis by (simp add: stock_def)
qed

theorem placeOrder_stock_witness:
  "mongooseCast castNumber0
   \<and> snd (placeOrder cast0 castNumber0 ''o1'' ''u1'' d0 (request [ask ''p1'' 3, ask ''p1'' 4]))
       = JsonWith 201 ''Order created successfully'' ord1
   \<and> items d0 ''p1'' = Some \<lparr>name = ''P1'', categoryType = ''c1'', price = Fin 100, quantity = Fin 10\<rparr>
   \<and> requestedOf cast0 ''p1'' [ask ''p1'' 3, ask ''p1'' 4] = [Fin 3, Fin 4]
   \<and> nonNegative (items d0)
   \<and> items (fst (placeOrder cast0 castNumber0 ''o1'' ''u1'' d0 (request [ask ''p1'' 3, ask ''p1'' 4]))) ''p1''
       = Some \<lparr>name = ''P1'', categoryType = ''c1'', price = Fin 100, quantity = Fin 3\<rparr>
   \<and> nonNegative (items (fst (placeOrder cast0 castNumber0 ''o1'' ''u1'' d0
          (request [ask ''p1'' 3, ask ''p1'' 4]))))"
proof -
  let ?d' = "d0\<lparr>items := [''p1'' \<mapsto> \<lparr>name = ''P1'', categoryType = ''c1'', price = Fin 100,
                                  quantity = Fin 3\<rparr>],
           orders := [''o1'' \<mapsto> ord1]\<rparr>"
  have p: "items d0 ''p1'' = Some \<lparr>name = ''P1'', categoryType = ''c1'', price = Fin 100, quantity = Fin 10\<rparr>"
    by (simp add: d0_def stock_def)
  have r: "requestedOf cast0 ''p1'' [ask ''p1'' 3, ask ''p1'' 4] = [Fin 3, Fin 4]"
    by (simp add: requestedOf_def lineGuard_def ask_def cast0_def)
  have n: "nonNegative (items d0)"
    by (simp add: nonNegative_def d0_def stock_def)
  from placeOrder_stock [OF mongooseCast_castNumber0 placeOrder_two_lines]
  have keep: "nonNegative (items d0) \<longrightarrow> nonNegative (items ?d')"
    and exact: "\<And>oid p s ks. items d0 oid = Some p \<and> quantity p = Fin (of_int s) \<and> 0 \<le> s \<and> s \<le> 2 ^ 53
        \<and> requestedOf cast0 oid [ask ''p1'' 3, ask ''p1'' 4] = map (\<lambda>k. Fin (of_int k)) ks
      \<Longrightarrow> items ?d' oid = Some (p\<lparr>quantity := Fin (of_int (s - sum_list ks))\<rparr>) \<and> sum_list ks \<le> s"
    by (auto simp: request_def)
  from exact [of "''p1''" _ 10 "[3, 4]"] p r
  have "items ?d' ''p1'' = Some \<lparr>name = ''P1'', categoryType = ''c1'', price = Fin 100, quantity = Fin 3\<rparr>"
    by simp
  with keep n p r mongooseCast_castNumber0 show ?thesis
    by (simp add: placeOrder_two_lines)
qed

text \<open>
  Claim C4, as the code has it. In every order that \<open>POST /order\<close> creates, the
  unit price of a line is the price its product had before the call, the line total
  is the product of quantity and unit price as Numbers, and the total amount is the
  line totals added one after the other as Numbers, from 0. Where the quantities and
  the unit prices are integers, no line total is negative and the exact sum of the
  line totals is at most \<open>2 ^ 53\<close>, the total amount is that exact sum.
\<close>

theorem placeOrder_totalAmount:
  assumes "mongooseCast castNumber"
    and "placeOrder cast castNumber newId uid d b = (d', JsonWith c m ord)"
  shows "(\<forall>ol \<in> set (orderLines ord).
            lineTotal ol = dmul (ol_quantity ol) (unitPrice ol)
          \<and> (\<exists>p. items d (product ol) = Some p \<and> unitPrice ol = price p))
       \<and> totalAmount ord = foldl dadd (Fin 0) (map lineTotal (orderLines ord))
       \<and> (\<forall>qs ps. map ol_quantity (orderLines ord) = map (\<lambda>k. Fin (of_int k)) qs
              \<and> map unitPrice (orderLines ord) = map (\<lambda>k. Fin (of_int k)) ps
              \<and> (\<forall>x \<in> set (map2 (*) qs ps). 0 \<le> x)
              \<and> sum_list (map2 (*) qs ps) \<le> 2 ^ 53
            \<longrightarrow> totalAmount ord = Fin (of_int (sum_list (map2 (*) qs ps))))"
proof -
  from placeOrder_created [OF assms(2)] obtain ls pls tot where
    run: "processLines cast castNumber (items d) ls [] (Fin 0) = (items d', Inr (pls, tot))"
    and cl: "castLines castNumber pls = Some (orderLines ord)"
    and ct: "castNumber (JNum tot) = Some (totalAmount ord)"
    by blast
  from castLines_stored [OF assms(1) cl] have ols: "orderLines ord = map storedLine pls" .
  from run have "processLines cast castNumber (items d) ls [] (Fin 0)
      = (items d', Inr ([] @ pls, tot))"
    by simp
  from processLines_pushed [OF this] have 1:
    "\<forall>ol \<in> set (orderLines ord).
            lineTotal ol = dmul (ol_quantity ol) (unitPrice ol)
          \<and> (\<exists>p. items d (product ol) = Some p \<and> unitPrice ol = price p)"
    by (auto simp: ols storedLine_def)
  from processLines_Inr [OF run] have "tot = foldl dadd (Fin 0) (map pushed_lineTotal pls)"
    by auto
  moreover have "map pushed_lineTotal pls = map lineTotal (orderLines ord)"
    by (simp add: ols storedLine_def comp_def)
  moreover from mongooseCast_JNum(1) [OF assms(1) ct] have "totalAmount ord = tot" .
  ultimately have 2: "totalAmount ord = foldl dadd (Fin 0) (map lineTotal (orderLines ord))"
    by simp
  have 3: "totalAmount ord = Fin (of_int (sum_list (map2 (*) qs ps)))"
    if h: "map ol_quantity (orderLines ord) = map (\<lambda>k. Fin (of_int k)) qs
           \<and> map unitPrice (orderLines ord) = map (\<lambda>k. Fin (of_int k)) ps
           \<and> (\<forall>x \<in> set (map2 (*) qs ps). 0 \<le> x)
           \<and> sum_list (map2 (*) qs ps) \<le> 2 ^ 53" for qs ps
  proof -
    from h have nn: "\<forall>x \<in> set (map2 (*) qs ps). 0 \<le> x"
      and le: "sum_list (map2 (*) qs ps) \<le> 2 ^ 53" by blast+
    have "\<forall>x \<in> set (map2 (*) qs ps). 0 \<le> x \<and> x \<le> 2 ^ 53"
    proof
      fix x assume x: "x \<in> set (map2 (*) qs ps)"
      from sum_list_member_le [OF nn x] le have "x \<le> 2 ^ 53" by simp
      moreover from nn x have "0 \<le> x" by blast
      ultimately show "0 \<le> x \<and> x \<le> 2 ^ 53" by blast
    qed
    with 1 h have "map lineTotal (orderLines ord) = map (\<lambda>k. Fin (of_int k)) (map2 (*) qs ps)"
      by (intro lineTotals_exact) blast+
    moreover from foldl_dadd_exact [of 0 "map2 (*) qs ps"] nn le
    have "foldl dadd (Fin 0) (map (\<lambda>k. Fin (of_int k)) (map2 (*) qs ps))
        = Fin (of_int (sum_list (map2 (*) qs ps)))"
      by simp
    ultimately show ?thesis using 2 by simp
  qed
  from 1 2 3 show ?thesis by blast
qed

text \<open>
  The arithmetic is that of doubles and not of integers or cents: 3 of a product
  whose price is the double nearest to one tenth give a line total and a total amount
  that are not three times the price.
\<close>

theorem placeOrder_totalAmount_rounds_counterexample:
  "price (the (items (stock (Fin tenth) (Fin 10)) ''p1'')) = Fin tenth
   \<and> snd (placeOrder cast0 castNumber0 ''o1'' ''u1'' (stock (Fin tenth) (Fin 10))
            (request [ask ''p1'' 3]))
       = JsonWith 201 ''Order created successfully''
           \<lparr>order_shop = ''s1'', salesman = ''u1'',
            orderLines = [\<lparr>product = ''p1'', productName = ''P1'', ol_quantity = Fin 3,
                             unitPrice = Fin tenth,
                             lineTotal = Fin (1351079888211149 / 4503599627370496)\<rparr>],
            totalAmount = Fin (1351079888211149 / 4503599627370496),
            paymentType = ''half'', paymentTypeId = 1,
            paymentAmount = Fin 150, amountPaid = Fin 0\<rparr>
   \<and> Fin (1351079888211149 / 4503599627370496) \<noteq> Fin (3 * tenth)"
proof -
  have s: "dsub (Fin 10) (Fin 3) = Fin 7"
    by (simp add: dsub_def round64_numeral)
  have m: "dmul (Fin 3) (Fin tenth) = Fin (1351079888211149 / 4503599627370496)"
    using round64_tenth_3 by (simp add: tenth_def)
  have a: "dadd (Fin 0) (Fin (1351079888211149 / 4503599627370496))
      = Fin (1351079888211149 / 4503599627370496)"
    by code_simp
  have "placeOrder cast0 castNumber0 ''o1'' ''u1'' (stock (Fin tenth) (Fin 10))
            (request [ask ''p1'' 3])
     = ((stock (Fin tenth) (Fin 10))
          \<lparr>items := [''p1'' \<mapsto> \<lparr>name = ''P1'', categoryType = ''c1'', price = Fin tenth,
                                 quantity = Fin 7\<rparr>],
           orders := [''o1'' \<mapsto> \<lparr>order_shop = ''s1'', salesman = ''u1'',
            orderLines = [\<lparr>product = ''p1'', productName = ''P1'', ol_quantity = Fin 3,
                             unitPrice = Fin tenth,
                             lineTotal = Fin (1351079888211149 / 4503599627370496)\<rparr>],
            totalAmount = Fin (1351079888211149 / 4503599627370496),
            paymentType = ''half'', paymentTypeId = 1,
            paymentAmount = Fin 150, amountPaid = Fin 0\<rparr>]\<rparr>,
        JsonWith 201 ''Order created successfully''
           \<lparr>order_shop = ''s1'', salesman = ''u1'',
            orderLines = [\<lparr>product = ''p1'', productName = ''P1'', ol_quantity = Fin 3,
                             unitPrice = Fin tenth,
                             lineTotal = Fin (1351079888211149 / 4503599627370496)\<rparr>],
            totalAmount = Fin (1351079888211149 / 4503599627370496),
            paymentType = ''half'', paymentTypeId = 1,
            paymentAmount = Fin 150, amountPaid = Fin 0\<rparr>)"
    unfolding placeOrder_def orderChecks_request
    by (simp add: createOrder_def processLine_def lineGuard_def ask_def cast0_def stock_def
        castNumber0_def castLine_def s m a paymentTypeToId_def Let_def
        del: dmul.simps dadd.simps)
  then show ?thesis by (simp add: stock_def tenth_def)
qed

theorem placeOrder_totalAmount_witness:
  "mongooseCast castNumber0
   \<and> placeOrder cast0 castNumber0 ''o1'' ''u1'' d0 (request [ask ''p1'' 3, ask ''p1'' 4])
       = (d0\<lparr>items := [''p1'' \<mapsto> \<lparr>name = ''P1'', categoryType = ''c1'', price = Fin 100,
                                    quantity = Fin 3\<rparr>],
             orders := [''o1'' \<mapsto> ord1]\<rparr>,
          JsonWith 201 ''Order created successfully'' ord1)
   \<and> map ol_quantity (orderLines ord1) = [Fin 3, Fin 4]
   \<and> map unitPrice (orderLines ord1) = [Fin 100, Fin 100]
   \<and> map lineTotal (orderLines ord1) = [dmul (Fin 3) (Fin 100), dmul (Fin 4) (Fin 100)]
   \<and> price (the (items d0 ''p1'')) = Fin 100
   \<and> totalAmount ord1 = foldl dadd (Fin 0) (map lineTotal (orderLines ord1))
   \<and> totalAmount ord1 = Fin 700"
proof -
  from placeOrder_totalAmount [OF mongooseCast_castNumber0 placeOrder_two_lines]
  have lines: "\<forall>ol \<in> set (orderLines ord1). lineTotal ol = dmul (ol_quantity ol) (unitPrice ol)
          \<and> (\<exists>p. items d0 (product ol) = Some p \<and> unitPrice ol = price p)"
    and tot: "totalAmount ord1 = foldl dadd (Fin 0) (map lineTotal (orderLines ord1))"
    and exact: "\<And>qs ps. map ol_quantity (orderLines ord1) = map (\<lambda>k. Fin (of_int k)) qs
              \<and> map unitPrice (orderLines ord1) = map (\<lambda>k. Fin (of_int k)) ps
              \<and> (\<forall>x \<in> set (map2 (*) qs ps). 0 \<le> x)
              \<and> sum_list (map2 (*) qs ps) \<le> 2 ^ 53
            \<Longrightarrow> totalAmount ord1 = Fin (of_int (sum_list (map2 (*) qs ps)))"
    by blast+
  have q: "map ol_quantity (orderLines ord1) = [Fin 3, Fin 4]"
    "map unitPrice (orderLines ord1) = [Fin 100, Fin 100]"
    by (simp_all add: ord1_def)
  from exact [of "[3, 4]" "[100, 100]"] q have t: "totalAmount ord1 = Fin 700" by simp
  from lines have l: "map lineTotal (orderLines ord1) = [dmul (Fin 3) (Fin 100), dmul (Fin 4) (Fin 100)]"
    by (simp add: ord1_def del: dmul.simps)
  have p: "price (the (items d0 ''p1'')) = Fin 100"
    by (simp add: d0_def stock_def)
  from mongooseCast_castNumber0 placeOrder_two_lines q l p tot t show ?thesis
    by (intro conjI)
qed

subsection \<open>Payments\<close>








section \<open>Properties of the auth service\<close>

subsection \<open>The credential store and the reset code\<close>

lemma findById_save:
  assumes "findById us i = Some u" "user_id u' = i"
  shows "findById (save us u') i = Some u'"
  using assms
  by (induction us) (auto simp: findById_def save_def split: if_splits)

lemma findOneByEmail_save:
  assumes "findOneByEmail us e = Some u" "user_id u' = user_id u" "email u' = e"
  shows "findOneByEmail (save us u') e = Some u'"
  using assms
  by (induction us) (auto simp: findOneByEmail_def save_def split: if_splits)

lemma set_save: "v \<in> set (save us u') \<Longrightarrow> v \<in> set us \<or> v = u'"
  by (auto simp: save_def split: if_splits)

lemma isDigit_digitChar: "d < 10 \<Longrightarrow> isDigit (digitChar d)"
proof -
  assume "d < 10"
  then have "d \<in> {0, 1, 2, 3, 4, 5, 6, 7, 8, 9}" by auto
  then show ?thesis
    by (auto simp: isDigit_def digitChar_def)
qed

lemma toString_digits: "\<forall>c \<in> set (toString n). isDigit c"
proof (induction n rule: toString.induct)
  case (1 n)
  show ?case
  proof (cases "n < 10")
    case True
    then show ?thesis
      by (subst toString.simps) (simp add: isDigit_digitChar)
  next
    case False
    with 1 have "\<forall>c \<in> set (toString (n div 10)). isDigit c" by simp
    moreover have "isDigit (digitChar (n mod 10))" by (rule isDigit_digitChar) simp
    ultimately show ?thesis using False
      by (subst toString.simps) simp
  qed
qed

lemma length_toString:
  "10 ^ k \<le> n \<Longrightarrow> n < 10 ^ Suc k \<Longrightarrow> length (toString n) = Suc k"
proof (induction k arbitrary: n)
  case 0
  then show ?case by (subst toString.simps) simp
next
  case (Suc k)
  have "(1::nat) \<le> 10 ^ k" by simp
  then have "(10::nat) \<le> 10 * 10 ^ k" by simp
  moreover from Suc.prems(1) have "10 * 10 ^ k \<le> n" by simp
  ultimately have "10 \<le> n" by (rule order_trans)
  then have ge: "\<not> n < 10" by simp
  from Suc.prems have "10 ^ k \<le> n div 10" "n div 10 < 10 ^ Suc k"
    by (simp_all add: less_mult_imp_div_less mult.commute) 
  from Suc.IH [OF this] ge show ?case
    by (subst toString.simps) simp
qed

lemma newResetCode_six:
  assumes "0 \<le> r" "r < 1"
  shows "length (newResetCode r) = 6 \<and> (\<forall>c \<in> set (newResetCode r). isDigit c)"
proof -
  define z where "z = \<lfloor>100000 + r * 900000\<rfloor>"
  have "100000 \<le> 100000 + r * 900000" "100000 + r * 900000 < 1000000"
    using assms by simp_all
  then have "100000 \<le> z" "z < 1000000"
    unfolding z_def by (simp_all only: le_floor_iff floor_less_iff of_int_numeral)
  then have "10 ^ 5 \<le> nat z" "nat z < 10 ^ Suc 5"
    by simp_all
  from length_toString [OF this] show ?thesis
    by (simp add: newResetCode_def toString_digits z_def)
qed

subsection \<open>Password reset\<close>

lemma findOneByEmail_email: "findOneByEmail us e = Some u \<Longrightarrow> email u = e"
  by (auto simp: findOneByEmail_def find_Some_iff)

lemma findById_user_id: "findById us i = Some u \<Longrightarrow> user_id u = i"
  by (auto simp: findById_def find_Some_iff)

lemma forgotPassword_found:
  assumes "e \<noteq> []" "findOneByEmail us (Some e) = Some u"
  shows "forgotPassword sha256 now r sent us (Some e)
           = (save us (u\<lparr>resetCode := Some (sha256 (newResetCode r)),
                          resetCodeExpiry := Some (now + 600000)\<rparr>),
              if sent then Json 200 ''Verification code sent to email'' else ServerError)"
  using assms by (simp add: forgotPassword_def Let_def)

lemma verifyCode_found:
  assumes "e \<noteq> []" "c \<noteq> []" "findOneByEmail us (Some e) = Some u"
    "resetCode u = Some h" "resetCodeExpiry u = Some t"
  shows "verifyCode sha256 now us (Some e) (Some c)
           = (if sha256 c = h \<and> now \<le> t then Json 200 ''Code verified''
              else Json 400 ''Invalid or expired code'')"
  using assms by (auto simp: verifyCode_def Let_def)

text \<open>
  Claim C6. \<open>POST /forgot-password\<close> for the email of an existing user draws a code
  of six decimal digits, stores its SHA-256 digest and an expiry ten minutes ahead on
  that user and writes nothing else: every stored document is an old one or that user
  with the two fields set. On the store it leaves, \<open>POST /verify-code\<close> with that
  code answers 200 up to the expiry and 400 "Invalid or expired code" after it; with
  another six-digit code it answers 400 "Invalid or expired code", the digest being
  injective on six-digit codes.
\<close>

theorem password_reset_round_trip:
  fixes sha256 :: "string \<Rightarrow> string" and now now' :: int and r :: rat
    and us :: "user list" and u :: user and e c :: string and sent :: bool
  defines "code \<equiv> newResetCode r"
    and "u' \<equiv> u\<lparr>resetCode := Some (sha256 (newResetCode r)), resetCodeExpiry := Some (now + 600000)\<rparr>"
    and "us' \<equiv> fst (forgotPassword sha256 now r sent us (Some e))"
  assumes "e \<noteq> []" and "findOneByEmail us (Some e) = Some u" and "0 \<le> r" and "r < 1"
  shows "sixDigits code
       \<and> us' = save us u'
       \<and> findOneByEmail us' (Some e) = Some u'
       \<and> (\<forall>v \<in> set us'. v \<in> set us \<or> v = u')
       \<and> (now' \<le> now + 600000
            \<longrightarrow> verifyCode sha256 now' us' (Some e) (Some code) = Json 200 ''Code verified'')
       \<and> (inj_on sha256 {c. sixDigits c} \<and> sixDigits c \<and> c \<noteq> code
            \<longrightarrow> verifyCode sha256 now' us' (Some e) (Some c) = Json 400 ''Invalid or expired code'')
       \<and> (now + 600000 < now'
            \<longrightarrow> verifyCode sha256 now' us' (Some e) (Some code) = Json 400 ''Invalid or expired code'')"
proof -
  have six: "sixDigits code"
    using newResetCode_six [OF assms(6,7)] by (simp add: sixDigits_def code_def)
  then have ne: "code \<noteq> []" by (auto simp: sixDigits_def)
  have us': "us' = save us u'"
    using forgotPassword_found [OF assms(4,5)] by (simp add: us'_def u'_def)
  have "email u = Some e" using assms(5) by (rule findOneByEmail_email)
  then have "user_id u' = user_id u" "email u' = Some e" by (simp_all add: u'_def code_def)
  from findOneByEmail_save [OF assms(5) this]
  have found: "findOneByEmail us' (Some e) = Some u'" by (simp add: us')
  have fields: "resetCode u' = Some (sha256 code)" "resetCodeExpiry u' = Some (now + 600000)"
    by (simp_all add: u'_def code_def)
  have olds: "\<forall>v \<in> set us'. v \<in> set us \<or> v = u'"
    using set_save by (auto simp: us')
  have ok: "now' \<le> now + 600000
      \<longrightarrow> verifyCode sha256 now' us' (Some e) (Some code) = Json 200 ''Code verified''"
    using verifyCode_found [OF assms(4) ne found fields] by simp
  have late: "now + 600000 < now'
      \<longrightarrow> verifyCode sha256 now' us' (Some e) (Some code) = Json 400 ''Invalid or expired code''"
    using verifyCode_found [OF assms(4) ne found fields] by simp
  have other: "inj_on sha256 {c. sixDigits c} \<and> sixDigits c \<and> c \<noteq> code
      \<longrightarrow> verifyCode sha256 now' us' (Some e) (Some c) = Json 400 ''Invalid or expired code''"
  proof
    assume a: "inj_on sha256 {c. sixDigits c} \<and> sixDigits c \<and> c \<noteq> code"
    then have "c \<noteq> []" by (auto simp: sixDigits_def)
    moreover from a six have "sha256 c \<noteq> sha256 code"
      by (auto simp: inj_on_def)
    ultimately show "verifyCode sha256 now' us' (Some e) (Some c) = Json 400 ''Invalid or expired code''"
      using verifyCode_found [OF assms(4) _ found fields, of c] by simp
  qed
  from six us' found olds ok other late show ?thesis by blast
qed

lemma newResetCode_half: "newResetCode (1 / 2) = ''550000''"
  by (simp add: newResetCode_def toString.simps digitChar_def)

theorem password_reset_round_trip_witness:
  "findOneByEmail [alice, bob] (Some ''a@x'') = Some alice
   \<and> newResetCode (1 / 2) = ''550000''
   \<and> inj_on hash0 {c. sixDigits c} \<and> sixDigits ''123456''
   \<and> fst (forgotPassword hash0 1000 (1 / 2) True [alice, bob] (Some ''a@x''))
       = [alice\<lparr>resetCode := Some (hash0 ''550000''), resetCodeExpiry := Some 601000\<rparr>, bob]
   \<and> verifyCode hash0 601000 (fst (forgotPassword hash0 1000 (1 / 2) True [alice, bob] (Some ''a@x'')))
        (Some ''a@x'') (Some ''550000'') = Json 200 ''Code verified''
   \<and> verifyCode hash0 2000 (fst (forgotPassword hash0 1000 (1 / 2) True [alice, bob] (Some ''a@x'')))
        (Some ''a@x'') (Some ''123456'') = Json 400 ''Invalid or expired code''
   \<and> verifyCode hash0 601001 (fst (forgotPassword hash0 1000 (1 / 2) True [alice, bob] (Some ''a@x'')))
        (Some ''a@x'') (Some ''550000'') = Json 400 ''Invalid or expired code''"
proof -
  have f: "findOneByEmail [alice, bob] (Some ''a@x'') = Some alice"
    by (simp add: findOneByEmail_def alice_def)
  have i: "inj_on hash0 {c. sixDigits c}"
    by (simp add: inj_on_def hash0_def)
  have s: "sixDigits ''123456''"
    by (simp add: sixDigits_def isDigit_def)
  have sv: "save [alice, bob] (alice\<lparr>resetCode := Some (hash0 ''550000''), resetCodeExpiry := Some 601000\<rparr>)
      = [alice\<lparr>resetCode := Some (hash0 ''550000''), resetCodeExpiry := Some 601000\<rparr>, bob]"
    by (simp add: save_def alice_def bob_def)
  have n: "''a@x'' \<noteq> []" "(0::rat) \<le> 1 / 2" "(1 / 2 :: rat) < 1" by simp_all
  note t = password_reset_round_trip [of "''a@x''" "[alice, bob]" alice "1 / 2" hash0 1000 True,
      OF n(1) f n(2,3), unfolded newResetCode_half]
  have a: "(601000::int) \<le> 1000 + 600000" "(1000::int) + 600000 < 601001"
    "''123456'' \<noteq> ''550000''" "601000 = (1000::int) + 600000"
    by simp_all
  from t [of 0 "[]"] have
    "fst (forgotPassword hash0 1000 (1 / 2) True [alice, bob] (Some ''a@x''))
       = save [alice, bob] (alice\<lparr>resetCode := Some (hash0 ''550000''), resetCodeExpiry := Some (1000 + 600000)\<rparr>)"
    by blast
  then have c1: "fst (forgotPassword hash0 1000 (1 / 2) True [alice, bob] (Some ''a@x''))
       = [alice\<lparr>resetCode := Some (hash0 ''550000''), resetCodeExpiry := Some 601000\<rparr>, bob]"
    using sv by simp
  from t [of 601000 "[]"] a(1) have c2:
    "verifyCode hash0 601000 (fst (forgotPassword hash0 1000 (1 / 2) True [alice, bob] (Some ''a@x'')))
        (Some ''a@x'') (Some ''550000'') = Json 200 ''Code verified''"
    by blast
  from t [of 2000 "''123456''"] i s a(3) have c3:
    "verifyCode hash0 2000 (fst (forgotPassword hash0 1000 (1 / 2) True [alice, bob] (Some ''a@x'')))
        (Some ''a@x'') (Some ''123456'') = Json 400 ''Invalid or expired code''"
    by blast
  from t [of 601001 "[]"] a(2) have c4:
    "verifyCode hash0 601001 (fst (forgotPassword hash0 1000 (1 / 2) True [alice, bob] (Some ''a@x'')))
        (Some ''a@x'') (Some ''550000'') = Json 400 ''Invalid or expired code''"
    by blast
  from f newResetCode_half i s c1 c2 c3 c4 show ?thesis
    by (intro conjI)
qed

subsection \<open>Change of password\<close>

text \<open>
  What \<open>passwordRegex\<close> accepts: eight characters or more, none of them a line
  terminator, with a letter, a digit and a character that is neither.
\<close>

lemma passwordRegex_test_iff:
  "passwordRegex_test s \<longleftrightarrow>
     8 \<le> length s \<and> (\<exists>c \<in> set s. isLetter c) \<and> (\<exists>c \<in> set s. isDigit c)
     \<and> (\<exists>c \<in> set s. \<not> isLetter c \<and> \<not> isDigit c) \<and> (\<forall>c \<in> set s. \<not> isLineTerminator c)"
proof (cases "takeWhile (\<lambda>c. \<not> isLineTerminator c) s = s")
  case True
  then have "\<forall>c \<in> set s. \<not> isLineTerminator c"
    by simp
  then show ?thesis
    unfolding passwordRegex_test_def Let_def True by auto
next
  case False
  then have "\<not> (\<forall>c \<in> set s. \<not> isLineTerminator c)"
    by simp
  with False show ?thesis
    by (auto simp: passwordRegex_test_def Let_def)
qed

text \<open>
  Claim C7, amended. \<open>POST /change-password\<close> validates the new password first: a
  new password that fails \<open>passwordRegex\<close> is refused with 400 whatever the old
  password is. Only then is the user loaded and the old password compared: a mismatch is
  refused with 400 "Old password is incorrect". Otherwise the hash of the new password is
  stored and the user's refresh token is set to \<open>null\<close>.
\<close>

theorem changePassword_checks_new_password_first:
  "(old \<noteq> [] \<and> new \<noteq> [] \<and> \<not> passwordRegex_test new
      \<longrightarrow> changePassword compare hash cast us uid
            (Some \<lparr>oldPassword = Some old, newPassword = Some new\<rparr>)
          = (us, Json 400 weakNewPassword))
 \<and> (old \<noteq> [] \<and> new \<noteq> [] \<and> passwordRegex_test new \<and> cast uid = Some oid
      \<and> findById us oid = Some u \<and> \<not> compare old (password u)
      \<longrightarrow> changePassword compare hash cast us uid
            (Some \<lparr>oldPassword = Some old, newPassword = Some new\<rparr>)
          = (us, Json 400 ''Old password is incorrect''))
 \<and> (old \<noteq> [] \<and> new \<noteq> [] \<and> passwordRegex_test new \<and> cast uid = Some oid
      \<and> findById us oid = Some u \<and> compare old (password u)
      \<longrightarrow> changePassword compare hash cast us uid
            (Some \<lparr>oldPassword = Some old, newPassword = Some new\<rparr>)
          = (save us (u\<lparr>password := hash new, refreshToken := None\<rparr>),
             Json 200 ''Password changed successfully'')
        \<and> findById (save us (u\<lparr>password := hash new, refreshToken := None\<rparr>)) oid
          = Some (u\<lparr>password := hash new, refreshToken := None\<rparr>))"
proof -
  have 1: "old \<noteq> [] \<and> new \<noteq> [] \<and> \<not> passwordRegex_test new
      \<longrightarrow> changePassword compare hash cast us uid
            (Some \<lparr>oldPassword = Some old, newPassword = Some new\<rparr>)
          = (us, Json 400 weakNewPassword)"
    by (simp add: changePassword_def weakNewPassword_def)
  have 2: "old \<noteq> [] \<and> new \<noteq> [] \<and> passwordRegex_test new \<and> cast uid = Some oid
      \<and> findById us oid = Some u \<and> \<not> compare old (password u)
      \<longrightarrow> changePassword compare hash cast us uid
            (Some \<lparr>oldPassword = Some old, newPassword = Some new\<rparr>)
          = (us, Json 400 ''Old password is incorrect'')"
    by (simp add: changePassword_def)
  have 3: "old \<noteq> [] \<and> new \<noteq> [] \<and> passwordRegex_test new \<and> cast uid = Some oid
      \<and> findById us oid = Some u \<and> compare old (password u)
      \<longrightarrow> changePassword compare hash cast us uid
            (Some \<lparr>oldPassword = Some old, newPassword = Some new\<rparr>)
          = (save us (u\<lparr>password := hash new, refreshToken := None\<rparr>),
             Json 200 ''Password changed successfully'')"
    by (simp add: changePassword_def)
  have 4: "findById us oid = Some u
      \<longrightarrow> findById (save us (u\<lparr>password := hash new, refreshToken := None\<rparr>)) oid
          = Some (u\<lparr>password := hash new, refreshToken := None\<rparr>)"
  proof
    assume f: "findById us oid = Some u"
    then have "user_id (u\<lparr>password := hash new, refreshToken := None\<rparr>) = oid"
      by (simp add: findById_user_id)
    with f show "findById (save us (u\<lparr>password := hash new, refreshToken := None\<rparr>)) oid
          = Some (u\<lparr>password := hash new, refreshToken := None\<rparr>)"
      by (rule findById_save)
  qed
  from 1 2 3 4 show ?thesis by blast
qed

text \<open>
  Claim C7 as stated fails: with a wrong old password and a weak new password the answer
  is the one of the password policy, not "Old password is incorrect".
\<close>

theorem changePassword_old_password_first_counterexample:
  "\<not> compare0 ''wrong'' (password alice)
   \<and> \<not> passwordRegex_test ''weak''
   \<and> findById [alice, bob] ''u1'' = Some alice
   \<and> changePassword compare0 hash0 cast0 [alice, bob] ''u1''
        (Some \<lparr>oldPassword = Some ''wrong'', newPassword = Some ''weak''\<rparr>)
       = ([alice, bob], Json 400 weakNewPassword)
   \<and> changePassword compare0 hash0 cast0 [alice, bob] ''u1''
        (Some \<lparr>oldPassword = Some ''wrong'', newPassword = Some ''weak''\<rparr>)
       \<noteq> ([alice, bob], Json 400 ''Old password is incorrect'')"
  by (simp add: changePassword_def compare0_def hash0_def alice_def findById_def
      passwordRegex_test_def Let_def weakNewPassword_def)

theorem changePassword_checks_new_password_first_witness:
  "passwordRegex_test ''N3w-passw0rd'' \<and> \<not> passwordRegex_test ''weak''
   \<and> cast0 ''u1'' = Some ''u1'' \<and> findById [alice, bob] ''u1'' = Some alice
   \<and> compare0 ''Passw0rd!'' (password alice) \<and> \<not> compare0 ''wrong'' (password alice)
   \<and> changePassword compare0 hash0 cast0 [alice, bob] ''u1''
        (Some \<lparr>oldPassword = Some ''wrong'', newPassword = Some ''weak''\<rparr>)
       = ([alice, bob], Json 400 weakNewPassword)
   \<and> changePassword compare0 hash0 cast0 [alice, bob] ''u1''
        (Some \<lparr>oldPassword = Some ''wrong'', newPassword = Some ''N3w-passw0rd''\<rparr>)
       = ([alice, bob], Json 400 ''Old password is incorrect'')
   \<and> changePassword compare0 hash0 cast0 [alice, bob] ''u1''
        (Some \<lparr>oldPassword = Some ''Passw0rd!'', newPassword = Some ''N3w-passw0rd''\<rparr>)
       = (save [alice, bob] (alice\<lparr>password := hash0 ''N3w-passw0rd'', refreshToken := None\<rparr>),
          Json 200 ''Password changed successfully'')
   \<and> findById (save [alice, bob] (alice\<lparr>password := hash0 ''N3w-passw0rd'', refreshToken := None\<rparr>)) ''u1''
       = Some (alice\<lparr>password := hash0 ''N3w-passw0rd'', refreshToken := None\<rparr>)"
proof -
  have h: "passwordRegex_test ''N3w-passw0rd''" "\<not> passwordRegex_test ''weak''"
    "cast0 ''u1'' = Some ''u1''" "findById [alice, bob] ''u1'' = Some alice"
    "compare0 ''Passw0rd!'' (password alice)" "\<not> compare0 ''wrong'' (password alice)"
    by (simp_all add: passwordRegex_test_def Let_def isLetter_def isDigit_def isLineTerminator_def
        cast0_def findById_def alice_def compare0_def hash0_def)
  note t = changePassword_checks_new_password_first [of _ _ compare0 hash0 cast0 "[alice, bob]" "''u1''" "''u1''" alice]
  from h t [of "''wrong''" "''weak''"] t [of "''wrong''" "''N3w-passw0rd''"]
    t [of "''Passw0rd!''" "''N3w-passw0rd''"]
  show ?thesis by simp
qed

subsection \<open>Refresh\<close>

lemma findOneByRefreshToken_token:
  "findOneByRefreshToken us t = Some u \<Longrightarrow> refreshToken u = Some t"
  by (auto simp: findOneByRefreshToken_def find_Some_iff)

text \<open>
  Claim C8. \<open>POST /refresh-token\<close> never writes: the store after the call is the
  store before it, whatever the request. With a token in the body, the user is looked up
  by the stored refresh token; the answer is 403 when no user holds the token and 403
  when \<open>jwt.verify\<close> rejects it; otherwise it is 200 with a new access token for that
  user, who still holds the same refresh token.
\<close>

theorem refresh_changes_nothing:
  "fst (refresh verify signAccess us body) = us
 \<and> (t \<noteq> [] \<and> findOneByRefreshToken us t = None
      \<longrightarrow> refresh verify signAccess us (Some (Some t)) = (us, Json 403 ''Invalid refresh token''))
 \<and> (t \<noteq> [] \<and> findOneByRefreshToken us t = Some u \<and> \<not> verify t
      \<longrightarrow> refresh verify signAccess us (Some (Some t))
          = (us, Json 403 ''Invalid or expired refresh token''))
 \<and> (t \<noteq> [] \<and> findOneByRefreshToken us t = Some u \<and> verify t
      \<longrightarrow> refresh verify signAccess us (Some (Some t))
          = (us, JsonWith 200 [] (signAccess (user_id u) (role u)))
        \<and> refreshToken u = Some t)"
proof -
  have 1: "fst (refresh verify signAccess us body) = us"
    by (auto simp: refresh_def split: option.splits)
  have 2: "t \<noteq> [] \<and> findOneByRefreshToken us t = None
      \<longrightarrow> refresh verify signAccess us (Some (Some t)) = (us, Json 403 ''Invalid refresh token'')"
    by (simp add: refresh_def)
  have 3: "t \<noteq> [] \<and> findOneByRefreshToken us t = Some u \<and> \<not> verify t
      \<longrightarrow> refresh verify signAccess us (Some (Some t))
          = (us, Json 403 ''Invalid or expired refresh token'')"
    by (simp add: refresh_def)
  have 4: "t \<noteq> [] \<and> findOneByRefreshToken us t = Some u \<and> verify t
      \<longrightarrow> refresh verify signAccess us (Some (Some t))
          = (us, JsonWith 200 [] (signAccess (user_id u) (role u)))
        \<and> refreshToken u = Some t"
    by (auto simp: refresh_def generateAccessToken_def dest: findOneByRefreshToken_token)
  from 1 2 3 4 show ?thesis by blast
qed

theorem refresh_changes_nothing_witness:
  "findOneByRefreshToken [alice, bob] ''rt1'' = Some alice \<and> verifyRefresh0 ''rt1''
   \<and> refresh verifyRefresh0 signAccess0 [alice, bob] (Some (Some ''rt1''))
       = ([alice, bob], JsonWith 200 [] ''access:u1:salesman'')
   \<and> findOneByRefreshToken [alice, bob] ''rt9'' = None
   \<and> refresh verifyRefresh0 signAccess0 [alice, bob] (Some (Some ''rt9''))
       = ([alice, bob], Json 403 ''Invalid refresh token'')"
proof -
  have h: "''rt1'' \<noteq> []" "''rt9'' \<noteq> []"
    "findOneByRefreshToken [alice, bob] ''rt1'' = Some alice" "verifyRefresh0 ''rt1''"
    "findOneByRefreshToken [alice, bob] ''rt9'' = None"
    "signAccess0 (user_id alice) (role alice) = ''access:u1:salesman''"
    by (simp_all add: findOneByRefreshToken_def alice_def bob_def verifyRefresh0_def signAccess0_def)
  note t = refresh_changes_nothing [of verifyRefresh0 signAccess0 "[alice, bob]"]
  from h t [of _ "''rt1''" alice] t [of _ "''rt9''"] show ?thesis by simp
qed

subsection \<open>Signup\<close>

lemma signup_created:
  assumes "signup hash newId us body = (us', JsonWith c m u)"
  shows "role u = ''admin'' \<and> us' = us @ [u] \<and> c = 201"
  using assms
  by (auto simp: signup_def Let_def split: option.splits if_splits)

lemma signup_users:
  "v \<in> set (fst (signup hash newId us body)) \<Longrightarrow> v \<in> set us \<or> role v = ''admin''"
  by (auto simp: signup_def Let_def split: option.splits if_splits)

text \<open>
  Claim C9. A user created by \<open>POST /signup\<close> has the role "admin": whenever the
  answer carries a created user, that user is appended to the store with role "admin",
  and every document of the store after any call is an old one or has role "admin".
  A body with name, phone, address and a password inside the policy, whose email
  finds no user, does create a user. The \<open>role\<close> field of the body changes nothing.
\<close>

theorem signup_role_admin:
  "(signup hash newId us body = (us', JsonWith c m u)
      \<longrightarrow> role u = ''admin'' \<and> us' = us @ [u] \<and> c = 201)
 \<and> (\<forall>v \<in> set (fst (signup hash newId us body)). v \<in> set us \<or> role v = ''admin'')
 \<and> (n \<noteq> [] \<and> ph \<noteq> [] \<and> a \<noteq> [] \<and> pw \<noteq> [] \<and> passwordRegex_test pw
      \<and> findOneByEmail us em = None
      \<longrightarrow> (\<exists>w. signup hash newId us
                 (Some \<lparr>sb_name = Some n, sb_phone = Some ph, sb_address = Some a,
                        sb_email = em, sb_password = Some pw, sb_role = rl\<rparr>)
               = (us @ [w], JsonWith 201 ''Admin user created successfully'' w)
             \<and> role w = ''admin'' \<and> user_id w = newId))
 \<and> signup hash newId us (Some (b\<lparr>sb_role := rl\<rparr>)) = signup hash newId us (Some b)"
proof -
  have 1: "signup hash newId us body = (us', JsonWith c m u)
      \<longrightarrow> role u = ''admin'' \<and> us' = us @ [u] \<and> c = 201"
    using signup_created by blast
  have 2: "\<forall>v \<in> set (fst (signup hash newId us body)). v \<in> set us \<or> role v = ''admin''"
    using signup_users by blast
  have 3: "n \<noteq> [] \<and> ph \<noteq> [] \<and> a \<noteq> [] \<and> pw \<noteq> [] \<and> passwordRegex_test pw
      \<and> findOneByEmail us em = None
      \<longrightarrow> (\<exists>w. signup hash newId us
                 (Some \<lparr>sb_name = Some n, sb_phone = Some ph, sb_address = Some a,
                        sb_email = em, sb_password = Some pw, sb_role = rl\<rparr>)
               = (us @ [w], JsonWith 201 ''Admin user created successfully'' w)
             \<and> role w = ''admin'' \<and> user_id w = newId)"
    by (simp add: signup_def Let_def)
  have 4: "signup hash newId us (Some (b\<lparr>sb_role := rl\<rparr>)) = signup hash newId us (Some b)"
    by (simp add: signup_def Let_def split: option.splits)
  from 1 2 3 4 show ?thesis by blast
qed

theorem signup_role_admin_witness:
  "passwordRegex_test ''Passw0rd!'' \<and> findOneByEmail [alice, bob] (Some ''c@x'') = None
   \<and> sb_role sb0 = Some ''salesman''
   \<and> (\<exists>w. signup hash0 ''u3'' [alice, bob] (Some sb0)
              = ([alice, bob] @ [w], JsonWith 201 ''Admin user created successfully'' w)
            \<and> role w = ''admin'' \<and> user_id w = ''u3'')"
proof -
  have h: "passwordRegex_test ''Passw0rd!''" "findOneByEmail [alice, bob] (Some ''c@x'') = None"
    "sb_role sb0 = Some ''salesman''"
    "''Carol'' \<noteq> []" "''3'' \<noteq> []" "''C'' \<noteq> []" "''Passw0rd!'' \<noteq> []"
    by (simp_all add: passwordRegex_test_def Let_def isLetter_def isDigit_def isLineTerminator_def
        findOneByEmail_def alice_def bob_def sb0_def)
  from h signup_role_admin [of hash0 "''u3''" "[alice, bob]" _ _ _ _ _ "''Carol''" "''3''" "''C''"
      "''Passw0rd!''" "Some ''c@x''" "Some ''salesman''"]
  show ?thesis by (simp add: sb0_def)
qed

subsection \<open>Login\<close>

text \<open>
  Claim C10. \<open>POST /login\<close> with an email and a password: an unknown email is
  answered 400 "Invalid credentials"; the email of a user whose \<open>isActive\<close> is
  \<open>false\<close> is answered 403 with the blocked-account message, whatever the password
  and whatever \<open>bcrypt.compare\<close> would say; only for a user who is not blocked is the
  password compared, a mismatch being answered 400 "Invalid credentials".
\<close>

theorem login_blocked_before_password:
  "(e \<noteq> [] \<and> pw \<noteq> [] \<and> findOneByEmail us (Some e) = None
      \<longrightarrow> login compare signAccess signRefresh us (Some \<lparr>lb_email = Some e, lb_password = Some pw\<rparr>)
          = (us, Json 400 ''Invalid credentials''))
 \<and> (e \<noteq> [] \<and> pw \<noteq> [] \<and> findOneByEmail us (Some e) = Some u \<and> isActive u = Some False
      \<longrightarrow> login compare signAccess signRefresh us (Some \<lparr>lb_email = Some e, lb_password = Some pw\<rparr>)
          = (us, Json 403 blockedMessage))
 \<and> (e \<noteq> [] \<and> pw \<noteq> [] \<and> findOneByEmail us (Some e) = Some u \<and> isActive u \<noteq> Some False
      \<and> \<not> compare pw (password u)
      \<longrightarrow> login compare signAccess signRefresh us (Some \<lparr>lb_email = Some e, lb_password = Some pw\<rparr>)
          = (us, Json 400 ''Invalid credentials''))"
proof -
  let ?call = "login compare signAccess signRefresh us
      (Some \<lparr>lb_email = Some e, lb_password = Some pw\<rparr>)"
  have unknown: "e \<noteq> [] \<and> pw \<noteq> [] \<and> findOneByEmail us (Some e) = None
      \<longrightarrow> ?call = (us, Json 400 ''Invalid credentials'')"
    by (simp add: login_def)
  have blocked: "e \<noteq> [] \<and> pw \<noteq> [] \<and> findOneByEmail us (Some e) = Some u
      \<and> isActive u = Some False
      \<longrightarrow> ?call = (us, Json 403 blockedMessage)"
  proof
    assume a: "e \<noteq> [] \<and> pw \<noteq> [] \<and> findOneByEmail us (Some e) = Some u
      \<and> isActive u = Some False"
    show "?call = (us, Json 403 blockedMessage)"
    proof (cases "compare pw (password u)")
      case True
      with a show ?thesis by (simp add: login_def)
    next
      case False
      with a show ?thesis by (simp add: login_def)
    qed
  qed
  have mismatch: "e \<noteq> [] \<and> pw \<noteq> [] \<and> findOneByEmail us (Some e) = Some u
      \<and> isActive u \<noteq> Some False \<and> \<not> compare pw (password u)
      \<longrightarrow> ?call = (us, Json 400 ''Invalid credentials'')"
    by (simp add: login_def)
  from unknown blocked mismatch show ?thesis by blast
qed

theorem login_blocked_before_password_witness:
  "findOneByEmail [alice, bob] (Some ''b@x'') = Some bob \<and> isActive bob = Some False
   \<and> compare0 ''Passw0rd!'' (password bob) \<and> \<not> compare0 ''guess'' (password bob)
   \<and> login compare0 signAccess0 signRefresh0 [alice, bob]
        (Some \<lparr>lb_email = Some ''b@x'', lb_password = Some ''Passw0rd!''\<rparr>)
       = ([alice, bob], Json 403 blockedMessage)
   \<and> login compare0 signAccess0 signRefresh0 [alice, bob]
        (Some \<lparr>lb_email = Some ''b@x'', lb_password = Some ''guess''\<rparr>)
       = ([alice, bob], Json 403 blockedMessage)"
proof -
  have h: "''b@x'' \<noteq> []" "''Passw0rd!'' \<noteq> []" "''guess'' \<noteq> []"
    "findOneByEmail [alice, bob] (Some ''b@x'') = Some bob" "isActive bob = Some False"
    "compare0 ''Passw0rd!'' (password bob)" "\<not> compare0 ''guess'' (password bob)"
    by (simp_all add: findOneByEmail_def alice_def bob_def compare0_def hash0_def)
  note t = login_blocked_before_password [of "''b@x''" _ "[alice, bob]" compare0 signAccess0 signRefresh0 bob]
  from h t [of "''Passw0rd!''"] t [of "''guess''"] show ?thesis by simp
qed

section \<open>Properties of the authorization gate\<close>

text \<open>
  The middleware calls \<open>next()\<close> only for a stored user who is not blocked, and
  attaches that user's id and role.
\<close>

lemma verifyAccessToken_Next:
  assumes "verifyAccessToken verify cast us h = Next p"
  shows "\<exists>u. findById us (pl_id p) = Some u \<and> isActive u \<noteq> Some False \<and> pl_role p = Some (role u)"
proof -
  from assms obtain oid u where "findById us oid = Some u" "isActive u \<noteq> Some False"
    "p = \<lparr>pl_id = user_id u, pl_role = Some (role u)\<rparr>"
    by (auto simp: verifyAccessToken_def split: option.splits if_splits list.splits)
  moreover from this have "user_id u = oid" by (simp add: findById_user_id)
  ultimately show ?thesis by auto
qed

lemma route_Next:
  assumes "route verify cast us roles h = Next p"
  shows "\<exists>u. findById us (pl_id p) = Some u \<and> isActive u \<noteq> Some False \<and> pl_role p = Some (role u)"
proof -
  from assms obtain q where q: "verifyAccessToken verify cast us h = Next q"
    and c: "checkRole roles (Some q) = Next p"
    by (auto simp: route_def split: gate.splits)
  from c have "p = q"
    by (auto simp: checkRole_def split: option.splits if_splits)
  with verifyAccessToken_Next [OF q] show ?thesis by simp
qed

text \<open>
  Claim C1. For a request whose header is \<open>Bearer\<close> and a token that verifies
  and carries the id of a user, \<open>verifyAccessToken\<close> loads that user: it answers 401,
  \<open>User not found\<close>, when there is none, 403 with the blocked-account message when
  \<open>isActive\<close> is false, and otherwise calls \<open>next()\<close> with the id and the role of
  the stored user. So whenever a gated route reaches its body, \<open>req.user\<close> is a
  stored user who is not blocked.
\<close>

theorem verifyAccessToken_resolves_user:
  "(take 7 h = ''Bearer '' \<and> split h = b # token # rest \<and> verify token = Some decoded
      \<and> cast (pl_id decoded) = Some oid
     \<longrightarrow> verifyAccessToken verify cast us (Some h)
          = (case findById us oid of
               None \<Rightarrow> Reject 401 ''User not found''
             | Some u \<Rightarrow>
                 if isActive u = Some False then Reject 403 blockedMessage
                 else Next \<lparr>pl_id = user_id u, pl_role = Some (role u)\<rparr>))
 \<and> (route verify cast us roles authHeader = Next p
     \<longrightarrow> (\<exists>u. findById us (pl_id p) = Some u \<and> isActive u \<noteq> Some False
            \<and> pl_role p = Some (role u)))"
proof -
  have 1: "take 7 h = ''Bearer '' \<and> split h = b # token # rest \<and> verify token = Some decoded
      \<and> cast (pl_id decoded) = Some oid
     \<longrightarrow> verifyAccessToken verify cast us (Some h)
          = (case findById us oid of
               None \<Rightarrow> Reject 401 ''User not found''
             | Some u \<Rightarrow>
                 if isActive u = Some False then Reject 403 blockedMessage
                 else Next \<lparr>pl_id = user_id u, pl_role = Some (role u)\<rparr>)"
  proof
    assume a: "take 7 h = ''Bearer '' \<and> split h = b # token # rest \<and> verify token = Some decoded
      \<and> cast (pl_id decoded) = Some oid"
    then have "h \<noteq> []" by auto
    with a show "verifyAccessToken verify cast us (Some h)
          = (case findById us oid of
               None \<Rightarrow> Reject 401 ''User not found''
             | Some u \<Rightarrow>
                 if isActive u = Some False then Reject 403 blockedMessage
                 else Next \<lparr>pl_id = user_id u, pl_role = Some (role u)\<rparr>)"
      by (simp add: verifyAccessToken_def split: option.splits)
  qed
  have 2: "route verify cast us roles authHeader = Next p
     \<longrightarrow> (\<exists>u. findById us (pl_id p) = Some u \<and> isActive u \<noteq> Some False
            \<and> pl_role p = Some (role u))"
    using route_Next by blast
  from 1 2 show ?thesis by blast
qed

theorem verifyAccessToken_resolves_user_witness:
  "take 7 ''Bearer tok2'' = ''Bearer '' \<and> split ''Bearer tok2'' = [''Bearer'', ''tok2'']
   \<and> verify0 ''tok2'' = Some \<lparr>pl_id = ''u2'', pl_role = Some ''salesman''\<rparr>
   \<and> cast0 ''u2'' = Some ''u2''
   \<and> findById [alice, bob] ''u2'' = Some bob \<and> isActive bob = Some False
   \<and> verifyAccessToken verify0 cast0 [alice, bob] (Some ''Bearer tok2'') = Reject 403 blockedMessage
   \<and> findById [alice] ''u2'' = None
   \<and> verifyAccessToken verify0 cast0 [alice] (Some ''Bearer tok2'') = Reject 401 ''User not found''
   \<and> route verify0 cast0 [alice, bob\<lparr>isActive := Some True\<rparr>] [''admin'', ''salesman'']
        (Some ''Bearer tok2'')
       = Next \<lparr>pl_id = ''u2'', pl_role = Some ''salesman''\<rparr>
   \<and> findById [alice, bob\<lparr>isActive := Some True\<rparr>] ''u2'' = Some (bob\<lparr>isActive := Some True\<rparr>)"
proof -
  have h: "take 7 ''Bearer tok2'' = ''Bearer ''" "split ''Bearer tok2'' = [''Bearer'', ''tok2'']"
    "verify0 ''tok2'' = Some \<lparr>pl_id = ''u2'', pl_role = Some ''salesman''\<rparr>"
    "cast0 ''u2'' = Some ''u2''"
    by (simp_all add: verify0_def cast0_def)
  have f: "findById [alice, bob] ''u2'' = Some bob" "isActive bob = Some False"
    "findById [alice] ''u2'' = None"
    "findById [alice, bob\<lparr>isActive := Some True\<rparr>] ''u2'' = Some (bob\<lparr>isActive := Some True\<rparr>)"
    by (simp_all add: findById_def alice_def bob_def)
  note t = verifyAccessToken_resolves_user [of "''Bearer tok2''" "''Bearer''" "''tok2''" "[]"
      verify0 "\<lparr>pl_id = ''u2'', pl_role = Some ''salesman''\<rparr>" cast0 "''u2''"]
  from t [of "[alice, bob]"] h f
  have a: "verifyAccessToken verify0 cast0 [alice, bob] (Some ''Bearer tok2'') = Reject 403 blockedMessage"
    by simp
  from t [of "[alice]"] h f
  have b: "verifyAccessToken verify0 cast0 [alice] (Some ''Bearer tok2'') = Reject 401 ''User not found''"
    by simp
  from t [of "[alice, bob\<lparr>isActive := Some True\<rparr>]"] h f
  have "verifyAccessToken verify0 cast0 [alice, bob\<lparr>isActive := Some True\<rparr>] (Some ''Bearer tok2'')
      = Next \<lparr>pl_id = ''u2'', pl_role = Some ''salesman''\<rparr>"
    by (simp add: bob_def)
  then have c: "route verify0 cast0 [alice, bob\<lparr>isActive := Some True\<rparr>] [''admin'', ''salesman'']
        (Some ''Bearer tok2'')
       = Next \<lparr>pl_id = ''u2'', pl_role = Some ''salesman''\<rparr>"
    by (simp add: route_def checkRole_def)
  from h f a b c show ?thesis by (intro conjI)
qed

end
